theory Spec2Isabelle
  imports Main
begin

section \<open>Values of the Go runtime and standard library\<close>

text \<open>
  The package \<^verbatim>\<open>client\<close> (file \<^verbatim>\<open>client/client.go\<close>) is embedded function by
  function. Go strings are byte sequences (\<^typ>\<open>string\<close>), Go's \<^verbatim>\<open>int\<close> is \<^typ>\<open>int\<close>
  (a 64-bit platform is assumed where a range matters), a nil-able interface or
  pointer is an \<^typ>\<open>'a option\<close> with \<^term>\<open>None\<close> for nil.
\<close>

record ClientError =
  StatusCode :: int
  Code :: string
  Message :: string

text \<open>
  Go's \<^verbatim>\<open>error\<close> values as they arise in this package: \<^verbatim>\<open>errors.New(text)\<close>,
  \<^verbatim>\<open>errwrap.Wrapf(format, inner)\<close>, a \<^verbatim>\<open>*ClientError\<close>, the type error of
  \<^verbatim>\<open>encoding/json\<close> (JSON value kind, Go field), and an error produced by a
  collaborator outside the package (URL parsing, signing, transport, ...).
\<close>

datatype error =
    ErrorsNew string
  | Wrapf string error
  | ClientErr ClientError
  | UnmarshalTypeError string string
  | External string

text \<open>What a call does: return a value, return an error, or panic.\<close>

datatype 'a outcome = Returns 'a | Fails error | Panics string

text \<open>
  \<^verbatim>\<open>authentication.Signer\<close>: the package only calls \<^verbatim>\<open>Sign(dateHeader)\<close>, which
  gives the Authorization header value or an error.
\<close>

type_synonym Signer = "string \<Rightarrow> error + string"

text \<open>\<^verbatim>\<open>url.URL\<close> and \<^verbatim>\<open>url.Values\<close> (a map from keys to value lists).\<close>

record URL =
  Scheme :: string
  Opaque :: string
  User :: "(string \<times> string option) option"
  Host :: string
  Path :: string
  RawPath :: string
  ForceQuery :: bool
  RawQuery :: string
  Fragment :: string

type_synonym Values = "string \<rightharpoonup> string list"

text \<open>
  \<^verbatim>\<open>http.Header\<close>, \<^verbatim>\<open>http.Request\<close>, \<^verbatim>\<open>http.Response\<close>, \<^verbatim>\<open>http.Transport\<close>, \<^verbatim>\<open>http.Client\<close>,
  with the fields this package reads or writes. A request holds the URL string
  it was built for and the context bound to it by \<^verbatim>\<open>WithContext\<close> (\<^term>\<open>None\<close> before
  that); a response holds its body as the bytes the stream delivers.
\<close>

type_synonym Header = "string \<rightharpoonup> string list"

record 'c Request =
  Method :: string
  Request_URL :: string
  Request_Header :: Header
  Request_Body :: "string option"
  Request_ctx :: "'c option"

record Response =
  Response_StatusCode :: int
  Response_Header :: Header
  Response_Body :: string

datatype Proxy_func = ProxyFromEnvironment

datatype CheckRedirect_func = doNotFollowRedirects

record Transport =
  Proxy :: Proxy_func
  Dial_Timeout :: nat
  Dial_KeepAlive :: nat
  TLSHandshakeTimeout :: nat
  DisableKeepAlives :: bool
  MaxIdleConnsPerHost :: int
  InsecureSkipVerify :: bool

record http_Client =
  Transport :: Transport
  CheckRedirect :: CheckRedirect_func

text \<open>A JSON document as the scanner of \<^verbatim>\<open>encoding/json\<close> sees it; a number keeps its literal.\<close>

datatype json =
    JNull
  | JBool bool
  | JNumber string
  | JString string
  | JArray "json list"
  | JObject "(string \<times> json) list"

text \<open>
  The collaborators of the package: the process environment, the clock, the
  network, the signer factory and the parsers and printers of the standard
  library. Each is called at most once in a call of the package, so a function
  of its arguments describes it; nothing is assumed about what it answers.
  \<^item> \<open>os_Getenv\<close>: \<^verbatim>\<open>os.Getenv\<close>;
  \<^item> \<open>url_Parse\<close>, \<open>URL_String\<close>, \<open>Values_Encode\<close>: \<^verbatim>\<open>url.Parse\<close>, \<^verbatim>\<open>(*URL).String\<close>,
    \<^verbatim>\<open>Values.Encode\<close>;
  \<^item> \<open>NewSSHAgentSigner\<close>: \<^verbatim>\<open>authentication.NewSSHAgentSigner\<close>;
  \<^item> \<open>json_MarshalIndent\<close>: \<^verbatim>\<open>json.MarshalIndent\<close> on a body value of type \<open>'v\<close>;
  \<^item> \<open>http_NewRequest\<close>: \<^verbatim>\<open>http.NewRequest(method, url, body)\<close>;
  \<^item> \<open>time_Now_UTC_RFC1123\<close>: \<^verbatim>\<open>time.Now().UTC().Format(time.RFC1123)\<close>;
  \<^item> \<open>Client_Do\<close>: \<^verbatim>\<open>(*http.Client).Do\<close>;
  \<^item> \<open>json_scan\<close>: the syntax layer of \<^verbatim>\<open>json.Decoder\<close>, reading one document
    from a byte stream.
\<close>

record ('v, 'c) env =
  os_Getenv :: "string \<Rightarrow> string"
  url_Parse :: "string \<Rightarrow> error + URL"
  URL_String :: "URL \<Rightarrow> string"
  Values_Encode :: "Values \<Rightarrow> string"
  NewSSHAgentSigner :: "string \<Rightarrow> string \<Rightarrow> error + Signer"
  json_MarshalIndent :: "'v \<Rightarrow> string \<Rightarrow> string \<Rightarrow> error + string"
  http_NewRequest :: "string \<Rightarrow> string \<Rightarrow> string option \<Rightarrow> error + 'c Request"
  time_Now_UTC_RFC1123 :: string
  Client_Do :: "http_Client \<Rightarrow> 'c Request \<Rightarrow> error + Response"
  json_scan :: "string \<Rightarrow> error + json"

text \<open>The calls a request execution makes to its collaborators, in order.\<close>

datatype 'c event =
    EvNewRequest string string "string option"
  | EvSign nat string
  | EvDo "'c Request"

section \<open>The package\<close>

record Client =
  HTTPClient :: "http_Client option"
  Authorizers :: "Signer option list"
  APIURL :: URL
  AccountName :: string
  Endpoint :: string

definition MissingKeyIdError :: error where
  "MissingKeyIdError = ErrorsNew ''Default SSH agent authentication requires SDC_KEY_ID''"

definition ClientError_Error :: "ClientError \<Rightarrow> string" where
  "ClientError_Error e = Code e @ '': '' @ Message e"

definition httpTransport :: "bool \<Rightarrow> Transport" where
  "httpTransport insecureSkipTLSVerify =
     \<lparr> Proxy = ProxyFromEnvironment,
       Dial_Timeout = 30,
       Dial_KeepAlive = 30,
       TLSHandshakeTimeout = 10,
       DisableKeepAlives = True,
       MaxIdleConnsPerHost = - 1,
       InsecureSkipVerify = insecureSkipTLSVerify \<rparr>"

text \<open>The loop of \<^verbatim>\<open>New\<close> over \<^verbatim>\<open>signers\<close>, appending every non-nil key to \<^verbatim>\<open>authorizers\<close>.\<close>

fun authorizers_loop :: "Signer option list \<Rightarrow> Signer option list \<Rightarrow> Signer option list" where
  "authorizers_loop authorizers [] = authorizers"
| "authorizers_loop authorizers (key # signers) =
     authorizers_loop (case key of None \<Rightarrow> authorizers | Some _ \<Rightarrow> authorizers @ [key]) signers"

definition New :: "('v, 'c) env \<Rightarrow> string \<Rightarrow> string \<Rightarrow> Signer option list \<Rightarrow> error + Client" where
  "New env endpoint accountName signers =
     (case url_Parse env endpoint of
        Inl err \<Rightarrow> Inl (Wrapf ''invalid endpoint: {{err}}'' err)
      | Inr apiURL \<Rightarrow>
          if accountName = '''' then Inl (ErrorsNew ''account name can not be empty'')
          else
            let httpClient = \<lparr> Transport = httpTransport False,
                               CheckRedirect = doNotFollowRedirects \<rparr>;
                newClient = \<lparr> HTTPClient = Some httpClient,
                              Authorizers = signers,
                              APIURL = apiURL,
                              AccountName = accountName,
                              Endpoint = endpoint \<rparr>;
                authorizers = authorizers_loop [] signers
            in
              if length authorizers = 0 then
                (let keyID = os_Getenv env ''SDC_KEY_ID'' in
                 if length keyID \<noteq> 0 then
                   (case NewSSHAgentSigner env keyID accountName of
                      Inl err \<Rightarrow> Inl (Wrapf ''Problem initializing NewSSHAgentSigner: {{err}}'' err)
                    | Inr keySigner \<Rightarrow>
                        Inr (newClient\<lparr>Authorizers := authorizers @ [Some keySigner]\<rparr>))
                 else Inl MissingKeyIdError)
              else Inr newClient)"

definition InsecureSkipTLSVerify :: "Client \<Rightarrow> Client" where
  "InsecureSkipTLSVerify c =
     (case HTTPClient c of
        None \<Rightarrow> c
      | Some h \<Rightarrow> c\<lparr>HTTPClient := Some (h\<lparr>Transport := httpTransport True\<rparr>)\<rparr>)"

definition FormatURL :: "Client \<Rightarrow> string \<Rightarrow> string" where
  "FormatURL c path = Endpoint c @ path"

subsection \<open>Headers\<close>

text \<open>
  \<^verbatim>\<open>Header.Set\<close> stores the single value under the canonical form of the key
  (\<^verbatim>\<open>textproto.CanonicalMIMEHeaderKey\<close>): when every byte of the key is a token
  byte, the first letter and each letter after a hyphen are upper case and the
  others lower case; a key with any other byte is kept as it is.
\<close>

definition isLower :: "char \<Rightarrow> bool" where
  "isLower c = (97 \<le> (of_char c :: nat) \<and> (of_char c :: nat) \<le> 122)"

definition isUpper :: "char \<Rightarrow> bool" where
  "isUpper c = (65 \<le> (of_char c :: nat) \<and> (of_char c :: nat) \<le> 90)"

definition isDigit :: "char \<Rightarrow> bool" where
  "isDigit c = (48 \<le> (of_char c :: nat) \<and> (of_char c :: nat) \<le> 57)"

definition toUpper :: "char \<Rightarrow> char" where
  "toUpper c = (if isLower c then char_of ((of_char c :: nat) - 32) else c)"

definition toLower :: "char \<Rightarrow> char" where
  "toLower c = (if isUpper c then char_of ((of_char c :: nat) + 32) else c)"

definition validHeaderFieldByte :: "char \<Rightarrow> bool" where
  "validHeaderFieldByte c =
     (isLower c \<or> isUpper c \<or> isDigit c \<or>
      c \<in> set [CHR ''!'', CHR ''#'', CHR ''$'', CHR ''%'', CHR ''&'', CHR 0x27, CHR ''*'',
                 CHR ''+'', CHR ''-'', CHR ''.'', CHR ''^'', CHR ''_'', CHR 0x60, CHR ''|'',
                 CHR ''~''])"

fun canonicalMIMEHeaderKey :: "bool \<Rightarrow> string \<Rightarrow> string" where
  "canonicalMIMEHeaderKey upper [] = []"
| "canonicalMIMEHeaderKey upper (c # a) =
     (let c' = (if upper then toUpper c else toLower c)
      in c' # canonicalMIMEHeaderKey (c' = CHR ''-'') a)"

definition CanonicalMIMEHeaderKey :: "string \<Rightarrow> string" where
  "CanonicalMIMEHeaderKey s =
     (if list_all validHeaderFieldByte s then canonicalMIMEHeaderKey True s else s)"

definition Header_Set :: "Header \<Rightarrow> string \<Rightarrow> string \<Rightarrow> Header" where
  "Header_Set h key v = h(CanonicalMIMEHeaderKey key \<mapsto> [v])"

definition Header_Values :: "Header \<Rightarrow> string \<Rightarrow> string list" where
  "Header_Values h key = (case h (CanonicalMIMEHeaderKey key) of None \<Rightarrow> [] | Some vs \<Rightarrow> vs)"

subsection \<open>Decoding an error body\<close>

text \<open>
  \<^verbatim>\<open>json.Decoder.Decode\<close> into a \<^verbatim>\<open>*ClientError\<close>. The struct has no field tags,
  so an object key selects the field whose name it equals, or else the field
  whose name it equals when case is ignored (\<open>foldName\<close>: ASCII letters to upper
  case, and the two code points U+017F and U+212A to \<open>S\<close> and \<open>K\<close>). Other keys
  are skipped, null leaves a field as it is, a later key overwrites an earlier
  one, and a value of the wrong kind is an \<open>UnmarshalTypeError\<close>: the decoder
  goes on and reports the first such error when it is done.
\<close>

fun foldName :: "string \<Rightarrow> string" where
  "foldName [] = []"
| "foldName (c # cs) =
     (if c = CHR 0xC5 \<and> take 1 cs = [CHR 0xBF] then CHR ''S'' # foldName (drop 1 cs)
      else if c = CHR 0xE2 \<and> take 2 cs = [CHR 0x84, CHR 0xAA] then CHR ''K'' # foldName (drop 2 cs)
      else toUpper c # foldName cs)"

datatype field = Field_StatusCode | Field_Code | Field_Message

definition field_name :: "field \<Rightarrow> string" where
  "field_name f =
     (case f of Field_StatusCode \<Rightarrow> ''StatusCode'' | Field_Code \<Rightarrow> ''Code''
      | Field_Message \<Rightarrow> ''Message'')"

definition find_field :: "string \<Rightarrow> field option" where
  "find_field key =
     (case List.find (\<lambda>f. field_name f = key) [Field_StatusCode, Field_Code, Field_Message] of
        Some f \<Rightarrow> Some f
      | None \<Rightarrow>
          List.find (\<lambda>f. foldName (field_name f) = foldName key)
            [Field_StatusCode, Field_Code, Field_Message])"

fun digits_value :: "nat \<Rightarrow> string \<Rightarrow> nat option" where
  "digits_value n [] = Some n"
| "digits_value n (c # cs) =
     (if isDigit c then digits_value (10 * n + ((of_char c :: nat) - 48)) cs else None)"

text \<open>\<^verbatim>\<open>strconv.ParseInt(s, 10, 64)\<close>: an optional sign, then decimal digits, within 64 bits.\<close>

definition strconv_ParseInt :: "string \<Rightarrow> int option" where
  "strconv_ParseInt s =
     (let (neg, ds) = (case s of
                         c # cs \<Rightarrow> if c = CHR ''-'' then (True, cs)
                                   else if c = CHR ''+'' then (False, cs) else (False, s)
                       | [] \<Rightarrow> (False, s))
      in if ds = [] then None
         else (case digits_value 0 ds of
                 None \<Rightarrow> None
               | Some n \<Rightarrow>
                   let v = (if neg then - int n else int n)
                   in if - (2 ^ 63) \<le> v \<and> v < 2 ^ 63 then Some v else None))"

definition json_kind :: "json \<Rightarrow> string" where
  "json_kind v =
     (case v of JNull \<Rightarrow> ''null'' | JBool _ \<Rightarrow> ''bool'' | JNumber _ \<Rightarrow> ''number''
      | JString _ \<Rightarrow> ''string'' | JArray _ \<Rightarrow> ''array'' | JObject _ \<Rightarrow> ''object'')"

text \<open>Storing one JSON value into one field: the new struct, or the type error.\<close>

definition store_field :: "field \<Rightarrow> json \<Rightarrow> ClientError \<Rightarrow> error + ClientError" where
  "store_field f v e =
     (case v of
        JNull \<Rightarrow> Inr e
      | _ \<Rightarrow>
        (case f of
           Field_StatusCode \<Rightarrow>
             (case v of
                JNumber s \<Rightarrow>
                  (case strconv_ParseInt s of
                     Some n \<Rightarrow> Inr (e\<lparr>StatusCode := n\<rparr>)
                   | None \<Rightarrow> Inl (UnmarshalTypeError (''number '' @ s) ''ClientError.StatusCode''))
              | _ \<Rightarrow> Inl (UnmarshalTypeError (json_kind v) ''ClientError.StatusCode''))
         | Field_Code \<Rightarrow>
             (case v of
                JString s \<Rightarrow> Inr (e\<lparr>Code := s\<rparr>)
              | _ \<Rightarrow> Inl (UnmarshalTypeError (json_kind v) ''ClientError.Code''))
         | Field_Message \<Rightarrow>
             (case v of
                JString s \<Rightarrow> Inr (e\<lparr>Message := s\<rparr>)
              | _ \<Rightarrow> Inl (UnmarshalTypeError (json_kind v) ''ClientError.Message''))))"

text \<open>The members of an object in order; \<open>saved\<close> is the first type error met so far.\<close>

fun decode_object :: "(string \<times> json) list \<Rightarrow> ClientError \<Rightarrow> error option \<Rightarrow> ClientError \<times> error option" where
  "decode_object [] e saved = (e, saved)"
| "decode_object ((key, v) # members) e saved =
     (case find_field key of
        None \<Rightarrow> decode_object members e saved
      | Some f \<Rightarrow>
          (case store_field f v e of
             Inr e' \<Rightarrow> decode_object members e' saved
           | Inl err \<Rightarrow>
               decode_object members e (case saved of None \<Rightarrow> Some err | Some _ \<Rightarrow> saved)))"

definition json_Unmarshal :: "json \<Rightarrow> ClientError \<Rightarrow> error + ClientError" where
  "json_Unmarshal doc e =
     (case doc of
        JNull \<Rightarrow> Inr e
      | JObject members \<Rightarrow>
          (case decode_object members e None of
             (e', None) \<Rightarrow> Inr e'
           | (_, Some err) \<Rightarrow> Inl err)
      | _ \<Rightarrow> Inl (UnmarshalTypeError (json_kind doc) ''ClientError''))"

definition json_Decode :: "('v, 'c) env \<Rightarrow> string \<Rightarrow> ClientError \<Rightarrow> error + ClientError" where
  "json_Decode env body e =
     (case json_scan env body of
        Inl err \<Rightarrow> Inl err
      | Inr doc \<Rightarrow> json_Unmarshal doc e)"

definition DecodeError :: "('v, 'c) env \<Rightarrow> Client \<Rightarrow> int \<Rightarrow> string \<Rightarrow> error" where
  "DecodeError env c statusCode body =
     (let err = \<lparr> StatusCode = statusCode, Code = [], Message = [] \<rparr>
      in case json_Decode env body err of
           Inl e \<Rightarrow> Wrapf ''Error decoding error response: {{err}}'' e
         | Inr err' \<Rightarrow> ClientErr err')"

subsection \<open>Executing a request\<close>

text \<open>
  Each function gives the calls it made to its collaborators and what it did
  in the end. \<open>body\<close> is \<^term>\<open>None\<close> for a nil body, \<open>query\<close> is \<^term>\<open>None\<close> for a
  nil \<^verbatim>\<open>*url.Values\<close>, \<open>ctx\<close> is \<^term>\<open>None\<close> for a nil context (on which
  \<^verbatim>\<open>req.WithContext\<close> panics). Indexing an empty \<^verbatim>\<open>Authorizers\<close>, calling \<^verbatim>\<open>Sign\<close>
  on a nil signer and calling \<^verbatim>\<open>Do\<close> on a nil \<^verbatim>\<open>HTTPClient\<close> panic too.
\<close>

definition ExecuteRequestURIParams ::
  "('v, 'c) env \<Rightarrow> Client \<Rightarrow> 'c option \<Rightarrow> string \<Rightarrow> string \<Rightarrow> 'v option \<Rightarrow> Values option
     \<Rightarrow> 'c event list \<times> string outcome" where
  "ExecuteRequestURIParams env c ctx method path body query =
     (case (case body of
              None \<Rightarrow> Inr None
            | Some b \<Rightarrow>
                (case json_MarshalIndent env b [] ''    '' of
                   Inl err \<Rightarrow> Inl err
                 | Inr marshaled \<Rightarrow> Inr (Some marshaled))) of
        Inl err \<Rightarrow> ([], Fails err)
      | Inr requestBody \<Rightarrow>
          let endpoint = APIURL c;
              endpoint = endpoint\<lparr>Path := path\<rparr>;
              endpoint = (case query of
                            None \<Rightarrow> endpoint
                          | Some q \<Rightarrow> endpoint\<lparr>RawQuery := Values_Encode env q\<rparr>);
              url = URL_String env endpoint;
              calls = [EvNewRequest method url requestBody]
          in
            (case http_NewRequest env method url requestBody of
               Inl err \<Rightarrow> (calls, Fails (Wrapf ''Error constructing HTTP request: {{err}}'' err))
             | Inr req \<Rightarrow>
                 let dateHeader = time_Now_UTC_RFC1123 env;
                     req = req\<lparr>Request_Header := Header_Set (Request_Header req) ''date'' dateHeader\<rparr>
                 in
                   (case Authorizers c of
                      [] \<Rightarrow> (calls, Panics ''index out of range'')
                    | None # _ \<Rightarrow> (calls, Panics ''nil pointer dereference'')
                    | Some signer # _ \<Rightarrow>
                        let calls = calls @ [EvSign 0 dateHeader] in
                        (case signer dateHeader of
                           Inl err \<Rightarrow> (calls, Fails (Wrapf ''Error signing HTTP request: {{err}}'' err))
                         | Inr authHeader \<Rightarrow>
                             let h = Request_Header req;
                                 h = Header_Set h ''Authorization'' authHeader;
                                 h = Header_Set h ''Accept'' ''application/json'';
                                 h = Header_Set h ''Accept-Version'' ''8'';
                                 h = Header_Set h ''User-Agent'' ''triton-go Client API'';
                                 h = (if body \<noteq> None
                                      then Header_Set h ''Content-Type'' ''application/json''
                                      else h);
                                 req = req\<lparr>Request_Header := h\<rparr>
                             in
                               (case ctx of
                                  None \<Rightarrow> (calls, Panics ''nil context'')
                                | Some _ \<Rightarrow>
                                    let req = req\<lparr>Request_ctx := ctx\<rparr> in
                                    (case HTTPClient c of
                                       None \<Rightarrow> (calls, Panics ''nil pointer dereference'')
                                     | Some httpClient \<Rightarrow>
                                         let calls = calls @ [EvDo req] in
                                         (case Client_Do env httpClient req of
                                            Inl err \<Rightarrow>
                                              (calls, Fails (Wrapf ''Error executing HTTP request: {{err}}'' err))
                                          | Inr resp \<Rightarrow>
                                              if Response_StatusCode resp \<ge> 200
                                                 \<and> Response_StatusCode resp < 300
                                              then (calls, Returns (Response_Body resp))
                                              else (calls, Fails (DecodeError env c
                                                      (Response_StatusCode resp)
                                                      (Response_Body resp))))))))))"

definition ExecuteRequest ::
  "('v, 'c) env \<Rightarrow> Client \<Rightarrow> 'c option \<Rightarrow> string \<Rightarrow> string \<Rightarrow> 'v option
     \<Rightarrow> 'c event list \<times> string outcome" where
  "ExecuteRequest env c ctx method path body =
     ExecuteRequestURIParams env c ctx method path body None"

definition ExecuteRequestRaw ::
  "('v, 'c) env \<Rightarrow> Client \<Rightarrow> 'c option \<Rightarrow> string \<Rightarrow> string \<Rightarrow> 'v option
     \<Rightarrow> 'c event list \<times> Response outcome" where
  "ExecuteRequestRaw env c ctx method path body =
     (case (case body of
              None \<Rightarrow> Inr None
            | Some b \<Rightarrow>
                (case json_MarshalIndent env b [] ''    '' of
                   Inl err \<Rightarrow> Inl err
                 | Inr marshaled \<Rightarrow> Inr (Some marshaled))) of
        Inl err \<Rightarrow> ([], Fails err)
      | Inr requestBody \<Rightarrow>
          let endpoint = APIURL c;
              endpoint = endpoint\<lparr>Path := path\<rparr>;
              url = URL_String env endpoint;
              calls = [EvNewRequest method url requestBody]
          in
            (case http_NewRequest env method url requestBody of
               Inl err \<Rightarrow> (calls, Fails (Wrapf ''Error constructing HTTP request: {{err}}'' err))
             | Inr req \<Rightarrow>
                 let dateHeader = time_Now_UTC_RFC1123 env;
                     req = req\<lparr>Request_Header := Header_Set (Request_Header req) ''date'' dateHeader\<rparr>
                 in
                   (case Authorizers c of
                      [] \<Rightarrow> (calls, Panics ''index out of range'')
                    | None # _ \<Rightarrow> (calls, Panics ''nil pointer dereference'')
                    | Some signer # _ \<Rightarrow>
                        let calls = calls @ [EvSign 0 dateHeader] in
                        (case signer dateHeader of
                           Inl err \<Rightarrow> (calls, Fails (Wrapf ''Error signing HTTP request: {{err}}'' err))
                         | Inr authHeader \<Rightarrow>
                             let h = Request_Header req;
                                 h = Header_Set h ''Authorization'' authHeader;
                                 h = Header_Set h ''Accept'' ''application/json'';
                                 h = Header_Set h ''Accept-Version'' ''8'';
                                 h = Header_Set h ''User-Agent'' ''triton-go c API'';
                                 h = (if body \<noteq> None
                                      then Header_Set h ''Content-Type'' ''application/json''
                                      else h);
                                 req = req\<lparr>Request_Header := h\<rparr>
                             in
                               (case ctx of
                                  None \<Rightarrow> (calls, Panics ''nil context'')
                                | Some _ \<Rightarrow>
                                    let req = req\<lparr>Request_ctx := ctx\<rparr> in
                                    (case HTTPClient c of
                                       None \<Rightarrow> (calls, Panics ''nil pointer dereference'')
                                     | Some httpClient \<Rightarrow>
                                         let calls = calls @ [EvDo req] in
                                         (case Client_Do env httpClient req of
                                            Inl err \<Rightarrow>
                                              (calls, Fails (Wrapf ''Error executing HTTP request: {{err}}'' err))
                                          | Inr resp \<Rightarrow> (calls, Returns resp))))))))"

section \<open>A worked run\<close>

text \<open>
  Collaborators for the worked examples below. Each answers as the Go library
  does on the inputs the examples use: URLs of the plain form
  \<^verbatim>\<open>scheme://host/path?query\<close>, JSON documents in ASCII without escapes, a
  server that answers GET with 200 and POST with 409, an agent that holds no key
  named \<^verbatim>\<open>missing\<close>. Inputs outside that range get an error.
\<close>

fun split_at :: "char \<Rightarrow> string \<Rightarrow> string \<times> string option" where
  "split_at d [] = ([], None)"
| "split_at d (c # s) =
     (if c = d then ([], Some s)
      else (case split_at d s of (a, b) \<Rightarrow> (c # a, b)))"

definition example_Parse :: "string \<Rightarrow> error + URL" where
  "example_Parse s =
     (case split_at CHR '':'' s of
        (scheme, Some rest) \<Rightarrow>
          if scheme \<noteq> [] \<and> list_all (\<lambda>c. isLower c \<or> isUpper c) scheme \<and> take 2 rest = ''//''
             \<and> list_all (\<lambda>c. isLower c \<or> isUpper c \<or> isDigit c \<or> c \<in> set ''/.-_?=&'')
                  (drop 2 rest)
          then
            (case split_at CHR ''?'' (drop 2 rest) of
               (hier, q) \<Rightarrow>
                 let host = takeWhile (\<lambda>c. c \<noteq> CHR ''/'') hier;
                     path = dropWhile (\<lambda>c. c \<noteq> CHR ''/'') hier
                 in Inr \<lparr> Scheme = map toLower scheme, Opaque = [], User = None, Host = host,
                          Path = path, RawPath = [], ForceQuery = (q = Some []),
                          RawQuery = (case q of None \<Rightarrow> [] | Some r \<Rightarrow> r), Fragment = [] \<rparr>)
          else Inl (External ''parse: not of the plain form'')
      | (_, None) \<Rightarrow> Inl (External ''parse: not of the plain form''))"

definition example_String :: "URL \<Rightarrow> string" where
  "example_String u =
     (if Scheme u = [] then [] else Scheme u @ '':'')
     @ (if Scheme u \<noteq> [] \<or> Host u \<noteq> []
        then (if Host u \<noteq> [] \<or> Path u \<noteq> [] then ''//'' else []) @ Host u
        else [])
     @ (if Path u \<noteq> [] \<and> take 1 (Path u) \<noteq> ''/'' \<and> Host u \<noteq> [] then ''/'' else [])
     @ Path u
     @ (if ForceQuery u \<or> RawQuery u \<noteq> [] then ''?'' @ RawQuery u else [])"

text \<open>\<^verbatim>\<open>Values.Encode\<close> for maps whose keys are among \<^verbatim>\<open>limit\<close> and \<^verbatim>\<open>offset\<close> (in sorted order).\<close>

definition example_Encode :: "Values \<Rightarrow> string" where
  "example_Encode q =
     (let pairs = concat (map (\<lambda>k. case q k of None \<Rightarrow> [] | Some vs \<Rightarrow> map (\<lambda>v. k @ ''='' @ v) vs)
                            [''limit'', ''offset''])
      in case pairs of [] \<Rightarrow> [] | p # ps \<Rightarrow> foldl (\<lambda>a b. a @ ''&'' @ b) p ps)"

definition example_Signer :: "string \<Rightarrow> string \<Rightarrow> Signer" where
  "example_Signer keyID accountName dateHeader =
     Inr (''Signature keyId=/'' @ accountName @ ''/keys/'' @ keyID @ '' date: '' @ dateHeader)"

definition failing_Signer :: Signer where
  "failing_Signer dateHeader = Inl (External ''agent: no key to sign with'')"

definition example_NewSSHAgentSigner :: "string \<Rightarrow> string \<Rightarrow> error + Signer" where
  "example_NewSSHAgentSigner keyID accountName =
     (if keyID = ''missing'' then Inl (External ''No key in the agent matches'')
      else Inr (example_Signer keyID accountName))"

text \<open>Body values of the examples are JSON objects of scalars, printed one member a line.\<close>

definition marshal_scalar :: "json \<Rightarrow> string option" where
  "marshal_scalar v =
     (case v of
        JNull \<Rightarrow> Some ''null''
      | JBool b \<Rightarrow> Some (if b then ''true'' else ''false'')
      | JNumber s \<Rightarrow> Some s
      | JString s \<Rightarrow>
          if list_all (\<lambda>c. isLower c \<or> isUpper c \<or> isDigit c) s
          then Some ([CHR 0x22] @ s @ [CHR 0x22]) else None
      | _ \<Rightarrow> None)"

fun marshal_members :: "string \<Rightarrow> (string \<times> json) list \<Rightarrow> string option" where
  "marshal_members ind [] = Some []"
| "marshal_members ind ((k, v) # ms) =
     (case (marshal_scalar (JString k), marshal_scalar v, marshal_members ind ms) of
        (Some k', Some v', Some rest) \<Rightarrow>
          Some (ind @ k' @ '': '' @ v' @ (if ms = [] then [] else '','') @ [CHR 0x0A] @ rest)
      | _ \<Rightarrow> None)"

definition example_MarshalIndent :: "json \<Rightarrow> string \<Rightarrow> string \<Rightarrow> error + string" where
  "example_MarshalIndent v prefix indent =
     (case v of
        JObject ms \<Rightarrow>
          if ms = [] then Inr ''{}''
          else (case marshal_members (prefix @ indent) ms of
                  Some body \<Rightarrow> Inr (''{'' @ [CHR 0x0A] @ body @ prefix @ ''}'')
                | None \<Rightarrow> Inl (External ''marshal: not an object of scalars''))
      | _ \<Rightarrow> Inl (External ''marshal: not an object of scalars''))"

definition example_NewRequest :: "string \<Rightarrow> string \<Rightarrow> string option \<Rightarrow> error + nat Request" where
  "example_NewRequest method url body =
     (let method = (if method = [] then ''GET'' else method)
      in if \<not> list_all validHeaderFieldByte method then Inl (External ''net/http: invalid method'')
         else (case example_Parse url of
                 Inl err \<Rightarrow> Inl err
               | Inr _ \<Rightarrow>
                   Inr \<lparr> Method = method, Request_URL = url, Request_Header = Map.empty,
                         Request_Body = body, Request_ctx = None \<rparr>))"

text \<open>The two response bodies of the example server, and one that names a status code.\<close>

definition body_200 :: string where
  \<open>body_200 = ''{"a":1}''\<close>

definition body_409 :: string where
  \<open>body_409 = ''{"code":"Conflict","message":"exists"}''\<close>

definition body_with_statusCode :: string where
  \<open>body_with_statusCode = ''{"statusCode":500,"code":"Conflict","message":"exists"}''\<close>

definition example_Do :: "http_Client \<Rightarrow> nat Request \<Rightarrow> error + Response" where
  "example_Do h req =
     (if Method req = ''GET'' then
        Inr \<lparr> Response_StatusCode = 200, Response_Header = Map.empty, Response_Body = body_200 \<rparr>
      else if Method req = ''POST'' then
        Inr \<lparr> Response_StatusCode = 409, Response_Header = Map.empty, Response_Body = body_409 \<rparr>
      else Inl (External ''dial tcp: connection refused''))"

definition isSpace :: "char \<Rightarrow> bool" where
  "isSpace c = (c = CHR '' '' \<or> c = CHR 0x09 \<or> c = CHR 0x0A \<or> c = CHR 0x0D)"

fun scan_string :: "string \<Rightarrow> (string \<times> string) option" where
  "scan_string [] = None"
| "scan_string (c # s) =
     (if c = CHR 0x22 then Some ([], s)
      else if c = CHR 0x5C \<or> (of_char c :: nat) < 32 \<or> (of_char c :: nat) \<ge> 128 then None
      else (case scan_string s of None \<Rightarrow> None | Some (a, r) \<Rightarrow> Some (c # a, r)))"

definition isNumberByte :: "char \<Rightarrow> bool" where
  "isNumberByte c = (isDigit c \<or> c \<in> set ''-+.eE'')"

definition valid_number :: "string \<Rightarrow> bool" where
  "valid_number s =
     (let s1 = (if take 1 s = ''-'' then drop 1 s else s);
          ip = takeWhile isDigit s1;
          r1 = dropWhile isDigit s1;
          fp = (if take 1 r1 = ''.'' then takeWhile isDigit (drop 1 r1) else ''0'');
          r2 = (if take 1 r1 = ''.'' then dropWhile isDigit (drop 1 r1) else r1);
          r3 = (if take 1 r2 = ''e'' \<or> take 1 r2 = ''E'' then drop 1 r2 else []);
          r4 = (if take 1 r3 = ''+'' \<or> take 1 r3 = ''-'' then drop 1 r3 else r3)
      in ip \<noteq> [] \<and> (if take 1 ip = ''0'' then ip = ''0'' else True) \<and> fp \<noteq> []
         \<and> (r2 = [] \<or> ((take 1 r2 = ''e'' \<or> take 1 r2 = ''E'') \<and> r4 \<noteq> [] \<and> list_all isDigit r4)))"

fun scan_value :: "nat \<Rightarrow> string \<Rightarrow> (json \<times> string) option"
  and scan_members :: "nat \<Rightarrow> string \<Rightarrow> ((string \<times> json) list \<times> string) option"
  and scan_elements :: "nat \<Rightarrow> string \<Rightarrow> (json list \<times> string) option" where
  "scan_value 0 s = None"
| "scan_value (Suc n) s =
     (case dropWhile isSpace s of
        [] \<Rightarrow> None
      | c # r \<Rightarrow>
          if c = CHR ''{'' then
            (case dropWhile isSpace r of
               [] \<Rightarrow> None
             | d # r' \<Rightarrow>
                 if d = CHR ''}'' then Some (JObject [], r')
                 else (case scan_members n r of
                         None \<Rightarrow> None
                       | Some (ms, r'') \<Rightarrow> Some (JObject ms, r'')))
          else if c = CHR ''['' then
            (case dropWhile isSpace r of
               [] \<Rightarrow> None
             | d # r' \<Rightarrow>
                 if d = CHR '']'' then Some (JArray [], r')
                 else (case scan_elements n r of
                         None \<Rightarrow> None
                       | Some (vs, r'') \<Rightarrow> Some (JArray vs, r'')))
          else if c = CHR 0x22 then
            (case scan_string r of
               None \<Rightarrow> None
             | Some (str, r') \<Rightarrow> Some (JString str, r'))
          else if take 4 (c # r) = ''true'' then Some (JBool True, drop 3 r)
          else if take 5 (c # r) = ''false'' then Some (JBool False, drop 4 r)
          else if take 4 (c # r) = ''null'' then Some (JNull, drop 3 r)
          else
            (let lit = takeWhile isNumberByte (c # r)
             in if valid_number lit then Some (JNumber lit, dropWhile isNumberByte (c # r))
                else None))"
| "scan_members 0 s = None"
| "scan_members (Suc n) s =
     (case dropWhile isSpace s of
        [] \<Rightarrow> None
      | c # r \<Rightarrow>
          if c \<noteq> CHR 0x22 then None
          else
            (case scan_string r of
               None \<Rightarrow> None
             | Some (key, r1) \<Rightarrow>
                 (case dropWhile isSpace r1 of
                    [] \<Rightarrow> None
                  | d # r2 \<Rightarrow>
                      if d \<noteq> CHR '':'' then None
                      else
                        (case scan_value n r2 of
                           None \<Rightarrow> None
                         | Some (v, r3) \<Rightarrow>
                             (case dropWhile isSpace r3 of
                                [] \<Rightarrow> None
                              | e # r4 \<Rightarrow>
                                  if e = CHR ''}'' then Some ([(key, v)], r4)
                                  else if e = CHR '','' then
                                    (case scan_members n r4 of
                                       None \<Rightarrow> None
                                     | Some (ms, r5) \<Rightarrow> Some ((key, v) # ms, r5))
                                  else None)))))"
| "scan_elements 0 s = None"
| "scan_elements (Suc n) s =
     (case scan_value n s of
        None \<Rightarrow> None
      | Some (v, r1) \<Rightarrow>
          (case dropWhile isSpace r1 of
             [] \<Rightarrow> None
           | e # r2 \<Rightarrow>
               if e = CHR '']'' then Some ([v], r2)
               else if e = CHR '','' then
                 (case scan_elements n r2 of
                    None \<Rightarrow> None
                  | Some (vs, r3) \<Rightarrow> Some (v # vs, r3))
               else None))"

definition example_scan :: "string \<Rightarrow> error + json" where
  "example_scan s =
     (case scan_value (2 * length s + 2) s of
        None \<Rightarrow> Inl (External ''json: syntax error'')
      | Some (doc, _) \<Rightarrow> Inr doc)"

text \<open>The run: no \<^verbatim>\<open>SDC_KEY_ID\<close> in the environment unless \<open>keyID\<close> is given.\<close>

definition example_env :: "string \<Rightarrow> (json, nat) env" where
  "example_env keyID =
     \<lparr> os_Getenv = (\<lambda>name. if name = ''SDC_KEY_ID'' then keyID else []),
       url_Parse = example_Parse,
       URL_String = example_String,
       Values_Encode = example_Encode,
       NewSSHAgentSigner = example_NewSSHAgentSigner,
       json_MarshalIndent = example_MarshalIndent,
       http_NewRequest = example_NewRequest,
       time_Now_UTC_RFC1123 = ''Sun, 01 Nov 2026 12:00:00 UTC'',
       Client_Do = example_Do,
       json_scan = example_scan \<rparr>"

text \<open>The Client that \<^verbatim>\<open>New\<close> builds in this run for an endpoint with a base path.\<close>

definition example_Client :: Client where
  "example_Client =
     \<lparr> HTTPClient = Some \<lparr> Transport = httpTransport False, CheckRedirect = doNotFollowRedirects \<rparr>,
       Authorizers = [Some (example_Signer ''aa:bb'' ''acct'')],
       APIURL = \<lparr> Scheme = ''https'', Opaque = [], User = None, Host = ''api.example.com'',
                  Path = ''/v1'', RawPath = [], ForceQuery = False, RawQuery = [], Fragment = [] \<rparr>,
       AccountName = ''acct'',
       Endpoint = ''https://api.example.com/v1'' \<rparr>"

text \<open>The same Client with two signers, the first of which fails, and with a query in its URL.\<close>

definition two_signer_Client :: Client where
  "two_signer_Client =
     example_Client\<lparr>Authorizers := [Some failing_Signer, Some (example_Signer ''aa:bb'' ''acct'')]\<rparr>"

definition query_Client :: Client where
  "query_Client = example_Client\<lparr>APIURL := (APIURL example_Client)\<lparr>RawQuery := ''v=2''\<rparr>\<rparr>"

text \<open>The calls to \<^verbatim>\<open>Sign\<close> among the calls of an execution.\<close>

fun is_EvSign :: "'c event \<Rightarrow> bool" where
  "is_EvSign (EvSign _ _) = True"
| "is_EvSign _ = False"

section \<open>Properties\<close>

subsection \<open>Auxiliary facts\<close>

lemma canonical_keys:
  "CanonicalMIMEHeaderKey ''date'' = ''Date''"
  "CanonicalMIMEHeaderKey ''Authorization'' = ''Authorization''"
  "CanonicalMIMEHeaderKey ''Accept'' = ''Accept''"
  "CanonicalMIMEHeaderKey ''Accept-Version'' = ''Accept-Version''"
  "CanonicalMIMEHeaderKey ''User-Agent'' = ''User-Agent''"
  "CanonicalMIMEHeaderKey ''Content-Type'' = ''Content-Type''"
  by code_simp+

lemma authorizers_loop_filter:
  "authorizers_loop acc signers = acc @ filter (\<lambda>key. key \<noteq> None) signers"
  by (induction signers arbitrary: acc) (auto split: option.splits)

text \<open>
  Every way an execution can go, with the calls made and the result: one case
  for each place where the function returns or panics.
\<close>

lemma URIParams_cases [consumes 1, case_names marshal construct no_authorizer nil_authorizer sign nil_context nil_client transport response]:
  assumes run: "ExecuteRequestURIParams env c ctx method path body query = (calls, out)"
  obtains
    b err where "body = Some b" and "json_MarshalIndent env b [] ''    '' = Inl err"
      and "calls = []" and "out = Fails err"
  | rb url err where "(case body of None \<Rightarrow> Inr None
               | Some b \<Rightarrow> (case json_MarshalIndent env b [] ''    '' of
                             Inl err \<Rightarrow> Inl err | Inr marshaled \<Rightarrow> Inr (Some marshaled))) = Inr rb"
      and "url = URL_String env (case query of None \<Rightarrow> (APIURL c)\<lparr>Path := path\<rparr>
                        | Some q \<Rightarrow> (APIURL c)\<lparr>Path := path, RawQuery := Values_Encode env q\<rparr>)"
      and "http_NewRequest env method url rb = Inl err"
      and "calls = [EvNewRequest method url rb]"
      and "out = Fails (Wrapf ''Error constructing HTTP request: {{err}}'' err)"
  | rb url r0 where "(case body of None \<Rightarrow> Inr None
               | Some b \<Rightarrow> (case json_MarshalIndent env b [] ''    '' of
                             Inl err \<Rightarrow> Inl err | Inr marshaled \<Rightarrow> Inr (Some marshaled))) = Inr rb"
      and "url = URL_String env (case query of None \<Rightarrow> (APIURL c)\<lparr>Path := path\<rparr>
                        | Some q \<Rightarrow> (APIURL c)\<lparr>Path := path, RawQuery := Values_Encode env q\<rparr>)"
      and "http_NewRequest env method url rb = Inr r0"
      and "Authorizers c = []"
      and "calls = [EvNewRequest method url rb]"
      and "out = Panics ''index out of range''"
  | rb url r0 rest where "(case body of None \<Rightarrow> Inr None
               | Some b \<Rightarrow> (case json_MarshalIndent env b [] ''    '' of
                             Inl err \<Rightarrow> Inl err | Inr marshaled \<Rightarrow> Inr (Some marshaled))) = Inr rb"
      and "url = URL_String env (case query of None \<Rightarrow> (APIURL c)\<lparr>Path := path\<rparr>
                        | Some q \<Rightarrow> (APIURL c)\<lparr>Path := path, RawQuery := Values_Encode env q\<rparr>)"
      and "http_NewRequest env method url rb = Inr r0"
      and "Authorizers c = None # rest"
      and "calls = [EvNewRequest method url rb]"
      and "out = Panics ''nil pointer dereference''"
  | rb url r0 s rest err where "(case body of None \<Rightarrow> Inr None
               | Some b \<Rightarrow> (case json_MarshalIndent env b [] ''    '' of
                             Inl err \<Rightarrow> Inl err | Inr marshaled \<Rightarrow> Inr (Some marshaled))) = Inr rb"
      and "url = URL_String env (case query of None \<Rightarrow> (APIURL c)\<lparr>Path := path\<rparr>
                        | Some q \<Rightarrow> (APIURL c)\<lparr>Path := path, RawQuery := Values_Encode env q\<rparr>)"
      and "http_NewRequest env method url rb = Inr r0"
      and "Authorizers c = Some s # rest"
      and "s (time_Now_UTC_RFC1123 env) = Inl err"
      and "calls = [EvNewRequest method url rb, EvSign 0 (time_Now_UTC_RFC1123 env)]"
      and "out = Fails (Wrapf ''Error signing HTTP request: {{err}}'' err)"
  | rb url r0 s rest auth where "(case body of None \<Rightarrow> Inr None
               | Some b \<Rightarrow> (case json_MarshalIndent env b [] ''    '' of
                             Inl err \<Rightarrow> Inl err | Inr marshaled \<Rightarrow> Inr (Some marshaled))) = Inr rb"
      and "url = URL_String env (case query of None \<Rightarrow> (APIURL c)\<lparr>Path := path\<rparr>
                        | Some q \<Rightarrow> (APIURL c)\<lparr>Path := path, RawQuery := Values_Encode env q\<rparr>)"
      and "http_NewRequest env method url rb = Inr r0"
      and "Authorizers c = Some s # rest"
      and "s (time_Now_UTC_RFC1123 env) = Inr auth"
      and "ctx = None"
      and "calls = [EvNewRequest method url rb, EvSign 0 (time_Now_UTC_RFC1123 env)]"
      and "out = Panics ''nil context''"
  | rb url r0 s rest auth x where "(case body of None \<Rightarrow> Inr None
               | Some b \<Rightarrow> (case json_MarshalIndent env b [] ''    '' of
                             Inl err \<Rightarrow> Inl err | Inr marshaled \<Rightarrow> Inr (Some marshaled))) = Inr rb"
      and "url = URL_String env (case query of None \<Rightarrow> (APIURL c)\<lparr>Path := path\<rparr>
                        | Some q \<Rightarrow> (APIURL c)\<lparr>Path := path, RawQuery := Values_Encode env q\<rparr>)"
      and "http_NewRequest env method url rb = Inr r0"
      and "Authorizers c = Some s # rest"
      and "s (time_Now_UTC_RFC1123 env) = Inr auth"
      and "ctx = Some x" and "HTTPClient c = None"
      and "calls = [EvNewRequest method url rb, EvSign 0 (time_Now_UTC_RFC1123 env)]"
      and "out = Panics ''nil pointer dereference''"
  | rb url r0 s rest auth x h req err where "(case body of None \<Rightarrow> Inr None
               | Some b \<Rightarrow> (case json_MarshalIndent env b [] ''    '' of
                             Inl err \<Rightarrow> Inl err | Inr marshaled \<Rightarrow> Inr (Some marshaled))) = Inr rb"
      and "url = URL_String env (case query of None \<Rightarrow> (APIURL c)\<lparr>Path := path\<rparr>
                        | Some q \<Rightarrow> (APIURL c)\<lparr>Path := path, RawQuery := Values_Encode env q\<rparr>)"
      and "http_NewRequest env method url rb = Inr r0"
      and "Authorizers c = Some s # rest"
      and "s (time_Now_UTC_RFC1123 env) = Inr auth"
      and "ctx = Some x" and "HTTPClient c = Some h"
      and "req = r0\<lparr>Request_Header :=
              (let h = Header_Set (Request_Header r0) ''date'' (time_Now_UTC_RFC1123 env);
                   h = Header_Set h ''Authorization'' auth;
                   h = Header_Set h ''Accept'' ''application/json'';
                   h = Header_Set h ''Accept-Version'' ''8'';
                   h = Header_Set h ''User-Agent'' ''triton-go Client API''
               in if body \<noteq> None then Header_Set h ''Content-Type'' ''application/json'' else h),
             Request_ctx := ctx\<rparr>"
      and "Client_Do env h req = Inl err"
      and "calls = [EvNewRequest method url rb, EvSign 0 (time_Now_UTC_RFC1123 env), EvDo req]"
      and "out = Fails (Wrapf ''Error executing HTTP request: {{err}}'' err)"
  | rb url r0 s rest auth x h req resp where "(case body of None \<Rightarrow> Inr None
               | Some b \<Rightarrow> (case json_MarshalIndent env b [] ''    '' of
                             Inl err \<Rightarrow> Inl err | Inr marshaled \<Rightarrow> Inr (Some marshaled))) = Inr rb"
      and "url = URL_String env (case query of None \<Rightarrow> (APIURL c)\<lparr>Path := path\<rparr>
                        | Some q \<Rightarrow> (APIURL c)\<lparr>Path := path, RawQuery := Values_Encode env q\<rparr>)"
      and "http_NewRequest env method url rb = Inr r0"
      and "Authorizers c = Some s # rest"
      and "s (time_Now_UTC_RFC1123 env) = Inr auth"
      and "ctx = Some x" and "HTTPClient c = Some h"
      and "req = r0\<lparr>Request_Header :=
              (let h = Header_Set (Request_Header r0) ''date'' (time_Now_UTC_RFC1123 env);
                   h = Header_Set h ''Authorization'' auth;
                   h = Header_Set h ''Accept'' ''application/json'';
                   h = Header_Set h ''Accept-Version'' ''8'';
                   h = Header_Set h ''User-Agent'' ''triton-go Client API''
               in if body \<noteq> None then Header_Set h ''Content-Type'' ''application/json'' else h),
             Request_ctx := ctx\<rparr>"
      and "Client_Do env h req = Inr resp"
      and "calls = [EvNewRequest method url rb, EvSign 0 (time_Now_UTC_RFC1123 env), EvDo req]"
      and "out = (if 200 \<le> Response_StatusCode resp \<and> Response_StatusCode resp < 300
                  then Returns (Response_Body resp)
                  else Fails (DecodeError env c (Response_StatusCode resp) (Response_Body resp)))"
proof -
  let ?U = "URL_String env (case query of None \<Rightarrow> (APIURL c)\<lparr>Path := path\<rparr>
              | Some q \<Rightarrow> (APIURL c)\<lparr>Path := path, RawQuery := Values_Encode env q\<rparr>)"
  let ?D = "time_Now_UTC_RFC1123 env"
  note defs = ExecuteRequestURIParams_def Let_def
  show thesis
  proof (cases "case body of None \<Rightarrow> (Inr None :: error + string option)
                | Some b \<Rightarrow> (case json_MarshalIndent env b [] ''    '' of
                              Inl err \<Rightarrow> Inl err | Inr marshaled \<Rightarrow> Inr (Some marshaled))")
    case mf: (Inl err)
    then obtain b where "body = Some b" "json_MarshalIndent env b [] ''    '' = Inl err"
      by (auto split: option.splits sum.splits)
    moreover from run mf have "calls = []" "out = Fails err"
      by (simp_all add: defs)
    ultimately show thesis by (rule that(1))
  next
    case mk: (Inr rb)
    show thesis
    proof (cases "http_NewRequest env method ?U rb")
      case nf: (Inl err)
      from run mk nf have "calls = [EvNewRequest method ?U rb]"
        "out = Fails (Wrapf ''Error constructing HTTP request: {{err}}'' err)"
        by (simp_all add: defs)
      with nf show thesis by (intro that(2)[OF mk refl])
    next
      case nk: (Inr r0)
      show thesis
      proof (cases "Authorizers c")
        case Nil
        from run mk nk Nil have "calls = [EvNewRequest method ?U rb]"
          "out = Panics ''index out of range''"
          by (simp_all add: defs)
        with nk Nil show thesis by (intro that(3)[OF mk refl])
      next
        case (Cons a rest)
        show thesis
        proof (cases a)
          case None
          from run mk nk Cons None have "calls = [EvNewRequest method ?U rb]"
            "out = Panics ''nil pointer dereference''"
            by (simp_all add: defs)
          with nk Cons None show thesis by (intro that(4)[OF mk refl]) auto
        next
          case (Some s)
          note au = Cons[unfolded Some]
          show thesis
          proof (cases "s ?D")
            case sf: (Inl err)
            from run mk nk au sf have "calls = [EvNewRequest method ?U rb, EvSign 0 ?D]"
              "out = Fails (Wrapf ''Error signing HTTP request: {{err}}'' err)"
              by (simp_all add: defs)
            with nk au sf show thesis by (intro that(5)[OF mk refl])
          next
            case sk: (Inr auth)
            show thesis
            proof (cases ctx)
              case None
              from run mk nk au sk None have "calls = [EvNewRequest method ?U rb, EvSign 0 ?D]"
                "out = Panics ''nil context''"
                by (simp_all add: defs)
              with nk au sk None show thesis by (intro that(6)[OF mk refl])
            next
              case cx: (Some x)
              show thesis
              proof (cases "HTTPClient c")
                case None
                from run mk nk au sk cx None have "calls = [EvNewRequest method ?U rb, EvSign 0 ?D]"
                  "out = Panics ''nil pointer dereference''"
                  by (simp_all add: defs)
                with nk au sk cx None show thesis by (intro that(7)[OF mk refl])
              next
                case hc: (Some h)
                let ?req = "r0\<lparr>Request_Header :=
                    (let h = Header_Set (Request_Header r0) ''date'' (time_Now_UTC_RFC1123 env);
                         h = Header_Set h ''Authorization'' auth;
                         h = Header_Set h ''Accept'' ''application/json'';
                         h = Header_Set h ''Accept-Version'' ''8'';
                         h = Header_Set h ''User-Agent'' ''triton-go Client API''
                     in if body \<noteq> None then Header_Set h ''Content-Type'' ''application/json'' else h),
                   Request_ctx := ctx\<rparr>"
                show thesis
                proof (cases "Client_Do env h ?req")
                  case df: (Inl err)
                  from run mk nk au sk cx hc df
                  have "calls = [EvNewRequest method ?U rb, EvSign 0 ?D, EvDo ?req]"
                    "out = Fails (Wrapf ''Error executing HTTP request: {{err}}'' err)"
                    by (simp_all add: defs)
                  with nk au sk cx hc df show thesis by (intro that(8)[OF mk refl _ _ _ _ _ refl])
                next
                  case dk: (Inr resp)
                  from run mk nk au sk cx hc dk
                  have "calls = [EvNewRequest method ?U rb, EvSign 0 ?D, EvDo ?req]"
                    "out = (if 200 \<le> Response_StatusCode resp \<and> Response_StatusCode resp < 300
                            then Returns (Response_Body resp)
                            else Fails (DecodeError env c (Response_StatusCode resp) (Response_Body resp)))"
                    by (auto simp: defs split: if_splits)
                  with nk au sk cx hc dk show thesis by (intro that(9)[OF mk refl _ _ _ _ _ refl])
                qed
              qed
            qed
          qed
        qed
      qed
    qed
  qed
qed

lemma Raw_cases [consumes 1, case_names marshal construct no_authorizer nil_authorizer sign nil_context nil_client transport response]:
  assumes run: "ExecuteRequestRaw env c ctx method path body = (calls, out)"
  obtains
    b err where "body = Some b" and "json_MarshalIndent env b [] ''    '' = Inl err"
      and "calls = []" and "out = Fails err"
  | rb url err where "(case body of None \<Rightarrow> Inr None
               | Some b \<Rightarrow> (case json_MarshalIndent env b [] ''    '' of
                             Inl err \<Rightarrow> Inl err | Inr marshaled \<Rightarrow> Inr (Some marshaled))) = Inr rb"
      and "url = URL_String env ((APIURL c)\<lparr>Path := path\<rparr>)"
      and "http_NewRequest env method url rb = Inl err"
      and "calls = [EvNewRequest method url rb]"
      and "out = Fails (Wrapf ''Error constructing HTTP request: {{err}}'' err)"
  | rb url r0 where "(case body of None \<Rightarrow> Inr None
               | Some b \<Rightarrow> (case json_MarshalIndent env b [] ''    '' of
                             Inl err \<Rightarrow> Inl err | Inr marshaled \<Rightarrow> Inr (Some marshaled))) = Inr rb"
      and "url = URL_String env ((APIURL c)\<lparr>Path := path\<rparr>)"
      and "http_NewRequest env method url rb = Inr r0"
      and "Authorizers c = []"
      and "calls = [EvNewRequest method url rb]"
      and "out = Panics ''index out of range''"
  | rb url r0 rest where "(case body of None \<Rightarrow> Inr None
               | Some b \<Rightarrow> (case json_MarshalIndent env b [] ''    '' of
                             Inl err \<Rightarrow> Inl err | Inr marshaled \<Rightarrow> Inr (Some marshaled))) = Inr rb"
      and "url = URL_String env ((APIURL c)\<lparr>Path := path\<rparr>)"
      and "http_NewRequest env method url rb = Inr r0"
      and "Authorizers c = None # rest"
      and "calls = [EvNewRequest method url rb]"
      and "out = Panics ''nil pointer dereference''"
  | rb url r0 s rest err where "(case body of None \<Rightarrow> Inr None
               | Some b \<Rightarrow> (case json_MarshalIndent env b [] ''    '' of
                             Inl err \<Rightarrow> Inl err | Inr marshaled \<Rightarrow> Inr (Some marshaled))) = Inr rb"
      and "url = URL_String env ((APIURL c)\<lparr>Path := path\<rparr>)"
      and "http_NewRequest env method url rb = Inr r0"
      and "Authorizers c = Some s # rest"
      and "s (time_Now_UTC_RFC1123 env) = Inl err"
      and "calls = [EvNewRequest method url rb, EvSign 0 (time_Now_UTC_RFC1123 env)]"
      and "out = Fails (Wrapf ''Error signing HTTP request: {{err}}'' err)"
  | rb url r0 s rest auth where "(case body of None \<Rightarrow> Inr None
               | Some b \<Rightarrow> (case json_MarshalIndent env b [] ''    '' of
                             Inl err \<Rightarrow> Inl err | Inr marshaled \<Rightarrow> Inr (Some marshaled))) = Inr rb"
      and "url = URL_String env ((APIURL c)\<lparr>Path := path\<rparr>)"
      and "http_NewRequest env method url rb = Inr r0"
      and "Authorizers c = Some s # rest"
      and "s (time_Now_UTC_RFC1123 env) = Inr auth"
      and "ctx = None"
      and "calls = [EvNewRequest method url rb, EvSign 0 (time_Now_UTC_RFC1123 env)]"
      and "out = Panics ''nil context''"
  | rb url r0 s rest auth x where "(case body of None \<Rightarrow> Inr None
               | Some b \<Rightarrow> (case json_MarshalIndent env b [] ''    '' of
                             Inl err \<Rightarrow> Inl err | Inr marshaled \<Rightarrow> Inr (Some marshaled))) = Inr rb"
      and "url = URL_String env ((APIURL c)\<lparr>Path := path\<rparr>)"
      and "http_NewRequest env method url rb = Inr r0"
      and "Authorizers c = Some s # rest"
      and "s (time_Now_UTC_RFC1123 env) = Inr auth"
      and "ctx = Some x" and "HTTPClient c = None"
      and "calls = [EvNewRequest method url rb, EvSign 0 (time_Now_UTC_RFC1123 env)]"
      and "out = Panics ''nil pointer dereference''"
  | rb url r0 s rest auth x h req err where "(case body of None \<Rightarrow> Inr None
               | Some b \<Rightarrow> (case json_MarshalIndent env b [] ''    '' of
                             Inl err \<Rightarrow> Inl err | Inr marshaled \<Rightarrow> Inr (Some marshaled))) = Inr rb"
      and "url = URL_String env ((APIURL c)\<lparr>Path := path\<rparr>)"
      and "http_NewRequest env method url rb = Inr r0"
      and "Authorizers c = Some s # rest"
      and "s (time_Now_UTC_RFC1123 env) = Inr auth"
      and "ctx = Some x" and "HTTPClient c = Some h"
      and "req = r0\<lparr>Request_Header :=
              (let h = Header_Set (Request_Header r0) ''date'' (time_Now_UTC_RFC1123 env);
                   h = Header_Set h ''Authorization'' auth;
                   h = Header_Set h ''Accept'' ''application/json'';
                   h = Header_Set h ''Accept-Version'' ''8'';
                   h = Header_Set h ''User-Agent'' ''triton-go c API''
               in if body \<noteq> None then Header_Set h ''Content-Type'' ''application/json'' else h),
             Request_ctx := ctx\<rparr>"
      and "Client_Do env h req = Inl err"
      and "calls = [EvNewRequest method url rb, EvSign 0 (time_Now_UTC_RFC1123 env), EvDo req]"
      and "out = Fails (Wrapf ''Error executing HTTP request: {{err}}'' err)"
  | rb url r0 s rest auth x h req resp where "(case body of None \<Rightarrow> Inr None
               | Some b \<Rightarrow> (case json_MarshalIndent env b [] ''    '' of
                             Inl err \<Rightarrow> Inl err | Inr marshaled \<Rightarrow> Inr (Some marshaled))) = Inr rb"
      and "url = URL_String env ((APIURL c)\<lparr>Path := path\<rparr>)"
      and "http_NewRequest env method url rb = Inr r0"
      and "Authorizers c = Some s # rest"
      and "s (time_Now_UTC_RFC1123 env) = Inr auth"
      and "ctx = Some x" and "HTTPClient c = Some h"
      and "req = r0\<lparr>Request_Header :=
              (let h = Header_Set (Request_Header r0) ''date'' (time_Now_UTC_RFC1123 env);
                   h = Header_Set h ''Authorization'' auth;
                   h = Header_Set h ''Accept'' ''application/json'';
                   h = Header_Set h ''Accept-Version'' ''8'';
                   h = Header_Set h ''User-Agent'' ''triton-go c API''
               in if body \<noteq> None then Header_Set h ''Content-Type'' ''application/json'' else h),
             Request_ctx := ctx\<rparr>"
      and "Client_Do env h req = Inr resp"
      and "calls = [EvNewRequest method url rb, EvSign 0 (time_Now_UTC_RFC1123 env), EvDo req]"
      and "out = Returns resp"
proof -
  let ?U = "URL_String env ((APIURL c)\<lparr>Path := path\<rparr>)"
  let ?D = "time_Now_UTC_RFC1123 env"
  note defs = ExecuteRequestRaw_def Let_def
  show thesis
  proof (cases "case body of None \<Rightarrow> (Inr None :: error + string option)
                | Some b \<Rightarrow> (case json_MarshalIndent env b [] ''    '' of
                              Inl err \<Rightarrow> Inl err | Inr marshaled \<Rightarrow> Inr (Some marshaled))")
    case mf: (Inl err)
    then obtain b where "body = Some b" "json_MarshalIndent env b [] ''    '' = Inl err"
      by (auto split: option.splits sum.splits)
    moreover from run mf have "calls = []" "out = Fails err"
      by (simp_all add: defs)
    ultimately show thesis by (rule that(1))
  next
    case mk: (Inr rb)
    show thesis
    proof (cases "http_NewRequest env method ?U rb")
      case nf: (Inl err)
      from run mk nf have "calls = [EvNewRequest method ?U rb]"
        "out = Fails (Wrapf ''Error constructing HTTP request: {{err}}'' err)"
        by (simp_all add: defs)
      with nf show thesis by (intro that(2)[OF mk refl])
    next
      case nk: (Inr r0)
      show thesis
      proof (cases "Authorizers c")
        case Nil
        from run mk nk Nil have "calls = [EvNewRequest method ?U rb]"
          "out = Panics ''index out of range''"
          by (simp_all add: defs)
        with nk Nil show thesis by (intro that(3)[OF mk refl])
      next
        case (Cons a rest)
        show thesis
        proof (cases a)
          case None
          from run mk nk Cons None have "calls = [EvNewRequest method ?U rb]"
            "out = Panics ''nil pointer dereference''"
            by (simp_all add: defs)
          with nk Cons None show thesis by (intro that(4)[OF mk refl]) auto
        next
          case (Some s)
          note au = Cons[unfolded Some]
          show thesis
          proof (cases "s ?D")
            case sf: (Inl err)
            from run mk nk au sf have "calls = [EvNewRequest method ?U rb, EvSign 0 ?D]"
              "out = Fails (Wrapf ''Error signing HTTP request: {{err}}'' err)"
              by (simp_all add: defs)
            with nk au sf show thesis by (intro that(5)[OF mk refl])
          next
            case sk: (Inr auth)
            show thesis
            proof (cases ctx)
              case None
              from run mk nk au sk None have "calls = [EvNewRequest method ?U rb, EvSign 0 ?D]"
                "out = Panics ''nil context''"
                by (simp_all add: defs)
              with nk au sk None show thesis by (intro that(6)[OF mk refl])
            next
              case cx: (Some x)
              show thesis
              proof (cases "HTTPClient c")
                case None
                from run mk nk au sk cx None have "calls = [EvNewRequest method ?U rb, EvSign 0 ?D]"
                  "out = Panics ''nil pointer dereference''"
                  by (simp_all add: defs)
                with nk au sk cx None show thesis by (intro that(7)[OF mk refl])
              next
                case hc: (Some h)
                let ?req = "r0\<lparr>Request_Header :=
                    (let h = Header_Set (Request_Header r0) ''date'' (time_Now_UTC_RFC1123 env);
                         h = Header_Set h ''Authorization'' auth;
                         h = Header_Set h ''Accept'' ''application/json'';
                         h = Header_Set h ''Accept-Version'' ''8'';
                         h = Header_Set h ''User-Agent'' ''triton-go c API''
                     in if body \<noteq> None then Header_Set h ''Content-Type'' ''application/json'' else h),
                   Request_ctx := ctx\<rparr>"
                show thesis
                proof (cases "Client_Do env h ?req")
                  case df: (Inl err)
                  from run mk nk au sk cx hc df
                  have "calls = [EvNewRequest method ?U rb, EvSign 0 ?D, EvDo ?req]"
                    "out = Fails (Wrapf ''Error executing HTTP request: {{err}}'' err)"
                    by (simp_all add: defs)
                  with nk au sk cx hc df show thesis by (intro that(8)[OF mk refl _ _ _ _ _ refl])
                next
                  case dk: (Inr resp)
                  from run mk nk au sk cx hc dk
                  have "calls = [EvNewRequest method ?U rb, EvSign 0 ?D, EvDo ?req]"
                    "out = Returns resp"
                    by (simp_all add: defs)
                  with nk au sk cx hc dk show thesis by (intro that(9)[OF mk refl _ _ _ _ _ refl])
                qed
              qed
            qed
          qed
        qed
      qed
    qed
  qed
qed

text \<open>An execution reads the Client's signers only through the first one.\<close>

lemma URIParams_rest_irrelevant:
  assumes "Authorizers c1 = a # rest" and "Authorizers c2 = a # rest'"
    and "HTTPClient c1 = HTTPClient c2" and "APIURL c1 = APIURL c2"
  shows "ExecuteRequestURIParams env c1 ctx method path body query =
         ExecuteRequestURIParams env c2 ctx method path body query"
  unfolding ExecuteRequestURIParams_def DecodeError_def assms list.case
  by (rule refl)

lemma Raw_rest_irrelevant:
  assumes "Authorizers c1 = a # rest" and "Authorizers c2 = a # rest'"
    and "HTTPClient c1 = HTTPClient c2" and "APIURL c1 = APIURL c2"
  shows "ExecuteRequestRaw env c1 ctx method path body =
         ExecuteRequestRaw env c2 ctx method path body"
  unfolding ExecuteRequestRaw_def assms list.case
  by (rule refl)

lemma URIParams_first_only:
  "length (filter is_EvSign (fst (ExecuteRequestURIParams env c ctx method path body query))) \<le> 1 \<and>
   (\<forall>i d. EvSign i d \<in> set (fst (ExecuteRequestURIParams env c ctx method path body query)) \<longrightarrow>
      i = 0 \<and>
      (\<exists>s rest. Authorizers c = Some s # rest \<and>
         (\<forall>err. s d = Inl err \<longrightarrow>
            snd (ExecuteRequestURIParams env c ctx method path body query)
              = Fails (Wrapf ''Error signing HTTP request: {{err}}'' err) \<and>
            (\<forall>req. EvDo req \<notin> set (fst (ExecuteRequestURIParams env c ctx method path body query)))))) \<and>
   (\<forall>a rest rest'. Authorizers c = a # rest \<longrightarrow>
      ExecuteRequestURIParams env (c\<lparr>Authorizers := a # rest'\<rparr>) ctx method path body query
        = ExecuteRequestURIParams env c ctx method path body query)"
proof -
  obtain calls out where R: "ExecuteRequestURIParams env c ctx method path body query = (calls, out)"
    by (cases "ExecuteRequestURIParams env c ctx method path body query")
  have "length (filter is_EvSign calls) \<le> 1 \<and>
     (\<forall>i d. EvSign i d \<in> set calls \<longrightarrow>
        i = 0 \<and>
        (\<exists>s rest. Authorizers c = Some s # rest \<and>
           (\<forall>err. s d = Inl err \<longrightarrow>
              out = Fails (Wrapf ''Error signing HTTP request: {{err}}'' err) \<and>
              (\<forall>req. EvDo req \<notin> set calls))))"
    using R by (cases rule: URIParams_cases) auto
  moreover have "ExecuteRequestURIParams env (c\<lparr>Authorizers := a # rest'\<rparr>) ctx method path body query
        = ExecuteRequestURIParams env c ctx method path body query"
    if "Authorizers c = a # rest" for a rest rest'
  proof -
    have "ExecuteRequestURIParams env c ctx method path body query
        = ExecuteRequestURIParams env (c\<lparr>Authorizers := a # rest'\<rparr>) ctx method path body query"
      by (rule URIParams_rest_irrelevant[where a = a and rest = rest and rest' = rest'])
        (simp_all add: that)
    then show ?thesis by (rule sym)
  qed
  ultimately show ?thesis unfolding R fst_conv snd_conv by blast
qed

lemma Raw_first_only:
  "length (filter is_EvSign (fst (ExecuteRequestRaw env c ctx method path body))) \<le> 1 \<and>
   (\<forall>i d. EvSign i d \<in> set (fst (ExecuteRequestRaw env c ctx method path body)) \<longrightarrow>
      i = 0 \<and>
      (\<exists>s rest. Authorizers c = Some s # rest \<and>
         (\<forall>err. s d = Inl err \<longrightarrow>
            snd (ExecuteRequestRaw env c ctx method path body)
              = Fails (Wrapf ''Error signing HTTP request: {{err}}'' err) \<and>
            (\<forall>req. EvDo req \<notin> set (fst (ExecuteRequestRaw env c ctx method path body)))))) \<and>
   (\<forall>a rest rest'. Authorizers c = a # rest \<longrightarrow>
      ExecuteRequestRaw env (c\<lparr>Authorizers := a # rest'\<rparr>) ctx method path body
        = ExecuteRequestRaw env c ctx method path body)"
proof -
  obtain calls out where R: "ExecuteRequestRaw env c ctx method path body = (calls, out)"
    by (cases "ExecuteRequestRaw env c ctx method path body")
  have "length (filter is_EvSign calls) \<le> 1 \<and>
     (\<forall>i d. EvSign i d \<in> set calls \<longrightarrow>
        i = 0 \<and>
        (\<exists>s rest. Authorizers c = Some s # rest \<and>
           (\<forall>err. s d = Inl err \<longrightarrow>
              out = Fails (Wrapf ''Error signing HTTP request: {{err}}'' err) \<and>
              (\<forall>req. EvDo req \<notin> set calls))))"
    using R by (cases rule: Raw_cases) auto
  moreover have "ExecuteRequestRaw env (c\<lparr>Authorizers := a # rest'\<rparr>) ctx method path body
        = ExecuteRequestRaw env c ctx method path body"
    if "Authorizers c = a # rest" for a rest rest'
  proof -
    have "ExecuteRequestRaw env c ctx method path body
        = ExecuteRequestRaw env (c\<lparr>Authorizers := a # rest'\<rparr>) ctx method path body"
      by (rule Raw_rest_irrelevant[where a = a and rest = rest and rest' = rest'])
        (simp_all add: that)
    then show ?thesis by (rule sym)
  qed
  ultimately show ?thesis unfolding R fst_conv snd_conv by blast
qed

text \<open>The date that is signed is the date that is sent.\<close>

lemma URIParams_date:
  "(\<forall>i d. EvSign i d \<in> set (fst (ExecuteRequestURIParams env c ctx method path body query)) \<longrightarrow>
      d = time_Now_UTC_RFC1123 env) \<and>
   (\<forall>req. EvDo req \<in> set (fst (ExecuteRequestURIParams env c ctx method path body query)) \<longrightarrow>
      (\<exists>s rest auth. Authorizers c = Some s # rest \<and>
         EvSign 0 (time_Now_UTC_RFC1123 env)
           \<in> set (fst (ExecuteRequestURIParams env c ctx method path body query)) \<and>
         s (time_Now_UTC_RFC1123 env) = Inr auth \<and>
         Header_Values (Request_Header req) ''date'' = [time_Now_UTC_RFC1123 env] \<and>
         Header_Values (Request_Header req) ''Authorization'' = [auth]))"
proof -
  obtain calls out where R: "ExecuteRequestURIParams env c ctx method path body query = (calls, out)"
    by (cases "ExecuteRequestURIParams env c ctx method path body query")
  show ?thesis unfolding R fst_conv snd_conv
    using R by (cases rule: URIParams_cases)
      (auto simp: Let_def Header_Set_def Header_Values_def canonical_keys)
qed

lemma Raw_date:
  "(\<forall>i d. EvSign i d \<in> set (fst (ExecuteRequestRaw env c ctx method path body)) \<longrightarrow>
      d = time_Now_UTC_RFC1123 env) \<and>
   (\<forall>req. EvDo req \<in> set (fst (ExecuteRequestRaw env c ctx method path body)) \<longrightarrow>
      (\<exists>s rest auth. Authorizers c = Some s # rest \<and>
         EvSign 0 (time_Now_UTC_RFC1123 env)
           \<in> set (fst (ExecuteRequestRaw env c ctx method path body)) \<and>
         s (time_Now_UTC_RFC1123 env) = Inr auth \<and>
         Header_Values (Request_Header req) ''date'' = [time_Now_UTC_RFC1123 env] \<and>
         Header_Values (Request_Header req) ''Authorization'' = [auth]))"
proof -
  obtain calls out where R: "ExecuteRequestRaw env c ctx method path body = (calls, out)"
    by (cases "ExecuteRequestRaw env c ctx method path body")
  show ?thesis unfolding R fst_conv snd_conv
    using R by (cases rule: Raw_cases)
      (auto simp: Let_def Header_Set_def Header_Values_def canonical_keys)
qed

text \<open>The fixed headers of the request that is sent.\<close>

lemma URIParams_headers:
  "\<forall>req. EvDo req \<in> set (fst (ExecuteRequestURIParams env c ctx method path body query)) \<longrightarrow>
      Header_Values (Request_Header req) ''Accept'' = [''application/json''] \<and>
      Header_Values (Request_Header req) ''Accept-Version'' = [''8''] \<and>
      Header_Values (Request_Header req) ''User-Agent'' = [''triton-go Client API''] \<and>
      (body \<noteq> None \<longrightarrow> Header_Values (Request_Header req) ''Content-Type'' = [''application/json''])"
proof -
  obtain calls out where R: "ExecuteRequestURIParams env c ctx method path body query = (calls, out)"
    by (cases "ExecuteRequestURIParams env c ctx method path body query")
  show ?thesis unfolding R fst_conv snd_conv
    using R by (cases rule: URIParams_cases)
      (auto simp: Let_def Header_Set_def Header_Values_def canonical_keys)
qed

lemma Raw_headers:
  "\<forall>req. EvDo req \<in> set (fst (ExecuteRequestRaw env c ctx method path body)) \<longrightarrow>
      Header_Values (Request_Header req) ''Accept'' = [''application/json''] \<and>
      Header_Values (Request_Header req) ''Accept-Version'' = [''8''] \<and>
      Header_Values (Request_Header req) ''User-Agent'' = [''triton-go c API''] \<and>
      (body \<noteq> None \<longrightarrow> Header_Values (Request_Header req) ''Content-Type'' = [''application/json''])"
proof -
  obtain calls out where R: "ExecuteRequestRaw env c ctx method path body = (calls, out)"
    by (cases "ExecuteRequestRaw env c ctx method path body")
  show ?thesis unfolding R fst_conv snd_conv
    using R by (cases rule: Raw_cases)
      (auto simp: Let_def Header_Set_def Header_Values_def canonical_keys)
qed



lemma URIParams_url:
  "(\<forall>m url b. EvNewRequest m url b \<in> set (fst (ExecuteRequestURIParams env c ctx method path body query)) \<longrightarrow>
      m = method \<and>
      url = URL_String env (case query of None \<Rightarrow> (APIURL c)\<lparr>Path := path\<rparr>
              | Some q \<Rightarrow> (APIURL c)\<lparr>Path := path, RawQuery := Values_Encode env q\<rparr>)) \<and>
   (\<forall>req. EvDo req \<in> set (fst (ExecuteRequestURIParams env c ctx method path body query)) \<longrightarrow>
      (\<exists>b r0. http_NewRequest env method
                 (URL_String env (case query of None \<Rightarrow> (APIURL c)\<lparr>Path := path\<rparr>
                    | Some q \<Rightarrow> (APIURL c)\<lparr>Path := path, RawQuery := Values_Encode env q\<rparr>)) b = Inr r0
               \<and> Request_URL req = Request_URL r0 \<and> Method req = Method r0))"
proof -
  obtain calls out where R: "ExecuteRequestURIParams env c ctx method path body query = (calls, out)"
    by (cases "ExecuteRequestURIParams env c ctx method path body query")
  show ?thesis unfolding R fst_conv snd_conv
    using R by (cases rule: URIParams_cases) auto
qed

lemma Raw_url:
  "(\<forall>m url b. EvNewRequest m url b \<in> set (fst (ExecuteRequestRaw env c ctx method path body)) \<longrightarrow>
      m = method \<and> url = URL_String env ((APIURL c)\<lparr>Path := path\<rparr>)) \<and>
   (\<forall>req. EvDo req \<in> set (fst (ExecuteRequestRaw env c ctx method path body)) \<longrightarrow>
      (\<exists>b r0. http_NewRequest env method (URL_String env ((APIURL c)\<lparr>Path := path\<rparr>)) b = Inr r0
               \<and> Request_URL req = Request_URL r0 \<and> Method req = Method r0))"
proof -
  obtain calls out where R: "ExecuteRequestRaw env c ctx method path body = (calls, out)"
    by (cases "ExecuteRequestRaw env c ctx method path body")
  show ?thesis unfolding R fst_conv snd_conv
    using R by (cases rule: Raw_cases) auto
qed

subsection \<open>The worked run, evaluated\<close>

lemmas example_defs =
  example_env_def example_Client_def example_String_def example_NewRequest_def
  example_Parse_def example_Do_def example_Encode_def example_Signer_def failing_Signer_def
  example_NewSSHAgentSigner_def example_MarshalIndent_def marshal_scalar_def
  isLower_def isUpper_def isDigit_def toLower_def toUpper_def validHeaderFieldByte_def

lemma example_New:
  "New (example_env []) ''https://api.example.com/v1'' ''acct''
     [Some (example_Signer ''aa:bb'' ''acct'')] = Inr example_Client"
  by (simp add: New_def example_env_def example_Client_def example_Parse_def isLower_def
      isUpper_def isDigit_def Let_def toLower_def)


lemma example_decode_statusCode:
  "DecodeError (example_env keyID) c 409 body_with_statusCode =
     ClientErr \<lparr>StatusCode = 500, Code = ''Conflict'', Message = ''exists''\<rparr>"
proof -
  have "json_Decode (example_env keyID) body_with_statusCode
          \<lparr>StatusCode = 409, Code = [], Message = []\<rparr>
      = Inr \<lparr>StatusCode = 500, Code = ''Conflict'', Message = ''exists''\<rparr>"
    unfolding json_Decode_def example_env_def env.simps by code_simp
  then show ?thesis by (simp add: DecodeError_def)
qed

lemma example_GET:
  "\<exists>req. ExecuteRequest (example_env []) example_Client (Some 0) ''GET'' ''/my/machines'' None =
     ([EvNewRequest ''GET'' ''https://api.example.com/my/machines'' None,
       EvSign 0 ''Sun, 01 Nov 2026 12:00:00 UTC'', EvDo req],
      Returns body_200) \<and> Method req = ''GET''"
  by (simp add: ExecuteRequest_def ExecuteRequestURIParams_def Let_def example_defs)


lemma example_two_signers:
  "ExecuteRequest (example_env []) two_signer_Client (Some 0) ''GET'' ''/my/machines'' None =
     ([EvNewRequest ''GET'' ''https://api.example.com/my/machines'' None,
       EvSign 0 ''Sun, 01 Nov 2026 12:00:00 UTC''],
      Fails (Wrapf ''Error signing HTTP request: {{err}}'' (External ''agent: no key to sign with'')))"
  by (simp add: ExecuteRequest_def ExecuteRequestURIParams_def Let_def example_defs
      two_signer_Client_def)

lemma example_Raw:
  "\<exists>req. ExecuteRequestRaw (example_env []) query_Client (Some 0) ''POST'' ''/my/machines'' None =
     ([EvNewRequest ''POST'' ''https://api.example.com/my/machines?v=2'' None,
       EvSign 0 ''Sun, 01 Nov 2026 12:00:00 UTC'', EvDo req],
      Returns \<lparr> Response_StatusCode = 409, Response_Header = Map.empty,
                Response_Body = body_409 \<rparr>) \<and> Method req = ''POST''"
  by (simp add: ExecuteRequestRaw_def Let_def example_defs query_Client_def)

lemma ExecuteRequest_url:
  "(\<forall>m url b. EvNewRequest m url b \<in> set (fst (ExecuteRequest env c ctx method path body)) \<longrightarrow>
      m = method \<and> url = URL_String env ((APIURL c)\<lparr>Path := path\<rparr>)) \<and>
   (\<forall>req. EvDo req \<in> set (fst (ExecuteRequest env c ctx method path body)) \<longrightarrow>
      (\<exists>b r0. http_NewRequest env method (URL_String env ((APIURL c)\<lparr>Path := path\<rparr>)) b = Inr r0
               \<and> Request_URL req = Request_URL r0 \<and> Method req = Method r0))"
  using URIParams_url[of env c ctx "method" "path" body None]
  unfolding ExecuteRequest_def option.case .

text \<open>
  Runs that get as far as signing: what is called and what comes back, given
  what the collaborators answer.
\<close>

lemma URIParams_run_first:
  assumes "(case body of None \<Rightarrow> Inr None
            | Some b \<Rightarrow> (case json_MarshalIndent env b [] ''    '' of
                          Inl err \<Rightarrow> Inl err | Inr marshaled \<Rightarrow> Inr (Some marshaled))) = Inr rb"
  shows "\<exists>calls. fst (ExecuteRequestURIParams env c ctx method path body query)
           = EvNewRequest method
               (URL_String env (case query of None \<Rightarrow> (APIURL c)\<lparr>Path := path\<rparr>
                  | Some q \<Rightarrow> (APIURL c)\<lparr>Path := path, RawQuery := Values_Encode env q\<rparr>)) rb # calls"
proof -
  obtain calls out where R: "ExecuteRequestURIParams env c ctx method path body query = (calls, out)"
    by (cases "ExecuteRequestURIParams env c ctx method path body query")
  show ?thesis unfolding R fst_conv
    using R assms by (cases rule: URIParams_cases) auto
qed

lemma URIParams_run_signs:
  assumes "(case body of None \<Rightarrow> Inr None
            | Some b \<Rightarrow> (case json_MarshalIndent env b [] ''    '' of
                          Inl err \<Rightarrow> Inl err | Inr marshaled \<Rightarrow> Inr (Some marshaled))) = Inr rb"
    and "http_NewRequest env method
           (URL_String env (case query of None \<Rightarrow> (APIURL c)\<lparr>Path := path\<rparr>
              | Some q \<Rightarrow> (APIURL c)\<lparr>Path := path, RawQuery := Values_Encode env q\<rparr>)) rb = Inr r0"
    and "Authorizers c = Some s # rest"
  shows "filter is_EvSign (fst (ExecuteRequestURIParams env c ctx method path body query))
           = [EvSign 0 (time_Now_UTC_RFC1123 env)]"
proof -
  obtain calls out where R: "ExecuteRequestURIParams env c ctx method path body query = (calls, out)"
    by (cases "ExecuteRequestURIParams env c ctx method path body query")
  show ?thesis unfolding R fst_conv
    using R assms by (cases rule: URIParams_cases) auto
qed

lemma URIParams_run_sign_fails:
  assumes "(case body of None \<Rightarrow> Inr None
            | Some b \<Rightarrow> (case json_MarshalIndent env b [] ''    '' of
                          Inl err \<Rightarrow> Inl err | Inr marshaled \<Rightarrow> Inr (Some marshaled))) = Inr rb"
    and "http_NewRequest env method
           (URL_String env (case query of None \<Rightarrow> (APIURL c)\<lparr>Path := path\<rparr>
              | Some q \<Rightarrow> (APIURL c)\<lparr>Path := path, RawQuery := Values_Encode env q\<rparr>)) rb = Inr r0"
    and "Authorizers c = Some s # rest"
    and "s (time_Now_UTC_RFC1123 env) = Inl err"
  shows "ExecuteRequestURIParams env c ctx method path body query
           = ([EvNewRequest method
                 (URL_String env (case query of None \<Rightarrow> (APIURL c)\<lparr>Path := path\<rparr>
                    | Some q \<Rightarrow> (APIURL c)\<lparr>Path := path, RawQuery := Values_Encode env q\<rparr>)) rb,
               EvSign 0 (time_Now_UTC_RFC1123 env)],
              Fails (Wrapf ''Error signing HTTP request: {{err}}'' err))"
proof -
  obtain calls out where R: "ExecuteRequestURIParams env c ctx method path body query = (calls, out)"
    by (cases "ExecuteRequestURIParams env c ctx method path body query")
  show ?thesis unfolding R
    using R assms by (cases rule: URIParams_cases) auto
qed

lemma URIParams_run_sent:
  assumes "(case body of None \<Rightarrow> Inr None
            | Some b \<Rightarrow> (case json_MarshalIndent env b [] ''    '' of
                          Inl err \<Rightarrow> Inl err | Inr marshaled \<Rightarrow> Inr (Some marshaled))) = Inr rb"
    and "http_NewRequest env method
           (URL_String env (case query of None \<Rightarrow> (APIURL c)\<lparr>Path := path\<rparr>
              | Some q \<Rightarrow> (APIURL c)\<lparr>Path := path, RawQuery := Values_Encode env q\<rparr>)) rb = Inr r0"
    and "Authorizers c = Some s # rest"
    and "s (time_Now_UTC_RFC1123 env) = Inr auth"
    and "ctx = Some x"
    and "HTTPClient c = Some h"
  shows "\<exists>req. fst (ExecuteRequestURIParams env c ctx method path body query)
           = [EvNewRequest method
                (URL_String env (case query of None \<Rightarrow> (APIURL c)\<lparr>Path := path\<rparr>
                   | Some q \<Rightarrow> (APIURL c)\<lparr>Path := path, RawQuery := Values_Encode env q\<rparr>)) rb,
              EvSign 0 (time_Now_UTC_RFC1123 env), EvDo req] \<and>
           Header_Values (Request_Header req) ''date'' = [time_Now_UTC_RFC1123 env] \<and>
           Header_Values (Request_Header req) ''Authorization'' = [auth] \<and>
           Request_URL req = Request_URL r0 \<and> Method req = Method r0 \<and>
           Request_Body req = Request_Body r0"
proof -
  obtain calls out where R: "ExecuteRequestURIParams env c ctx method path body query = (calls, out)"
    by (cases "ExecuteRequestURIParams env c ctx method path body query")
  show ?thesis unfolding R fst_conv
    using R assms by (cases rule: URIParams_cases)
      (auto simp: Let_def Header_Set_def Header_Values_def canonical_keys)
qed

lemma Raw_run_first:
  assumes "(case body of None \<Rightarrow> Inr None
            | Some b \<Rightarrow> (case json_MarshalIndent env b [] ''    '' of
                          Inl err \<Rightarrow> Inl err | Inr marshaled \<Rightarrow> Inr (Some marshaled))) = Inr rb"
  shows "\<exists>calls. fst (ExecuteRequestRaw env c ctx method path body)
           = EvNewRequest method
               (URL_String env ((APIURL c)\<lparr>Path := path\<rparr>)) rb # calls"
proof -
  obtain calls out where R: "ExecuteRequestRaw env c ctx method path body = (calls, out)"
    by (cases "ExecuteRequestRaw env c ctx method path body")
  show ?thesis unfolding R fst_conv
    using R assms by (cases rule: Raw_cases) auto
qed

lemma Raw_run_signs:
  assumes "(case body of None \<Rightarrow> Inr None
            | Some b \<Rightarrow> (case json_MarshalIndent env b [] ''    '' of
                          Inl err \<Rightarrow> Inl err | Inr marshaled \<Rightarrow> Inr (Some marshaled))) = Inr rb"
    and "http_NewRequest env method
           (URL_String env ((APIURL c)\<lparr>Path := path\<rparr>)) rb = Inr r0"
    and "Authorizers c = Some s # rest"
  shows "filter is_EvSign (fst (ExecuteRequestRaw env c ctx method path body))
           = [EvSign 0 (time_Now_UTC_RFC1123 env)]"
proof -
  obtain calls out where R: "ExecuteRequestRaw env c ctx method path body = (calls, out)"
    by (cases "ExecuteRequestRaw env c ctx method path body")
  show ?thesis unfolding R fst_conv
    using R assms by (cases rule: Raw_cases) auto
qed

lemma Raw_run_sign_fails:
  assumes "(case body of None \<Rightarrow> Inr None
            | Some b \<Rightarrow> (case json_MarshalIndent env b [] ''    '' of
                          Inl err \<Rightarrow> Inl err | Inr marshaled \<Rightarrow> Inr (Some marshaled))) = Inr rb"
    and "http_NewRequest env method
           (URL_String env ((APIURL c)\<lparr>Path := path\<rparr>)) rb = Inr r0"
    and "Authorizers c = Some s # rest"
    and "s (time_Now_UTC_RFC1123 env) = Inl err"
  shows "ExecuteRequestRaw env c ctx method path body
           = ([EvNewRequest method
                 (URL_String env ((APIURL c)\<lparr>Path := path\<rparr>)) rb,
               EvSign 0 (time_Now_UTC_RFC1123 env)],
              Fails (Wrapf ''Error signing HTTP request: {{err}}'' err))"
proof -
  obtain calls out where R: "ExecuteRequestRaw env c ctx method path body = (calls, out)"
    by (cases "ExecuteRequestRaw env c ctx method path body")
  show ?thesis unfolding R
    using R assms by (cases rule: Raw_cases) auto
qed

lemma Raw_run_sent:
  assumes "(case body of None \<Rightarrow> Inr None
            | Some b \<Rightarrow> (case json_MarshalIndent env b [] ''    '' of
                          Inl err \<Rightarrow> Inl err | Inr marshaled \<Rightarrow> Inr (Some marshaled))) = Inr rb"
    and "http_NewRequest env method
           (URL_String env ((APIURL c)\<lparr>Path := path\<rparr>)) rb = Inr r0"
    and "Authorizers c = Some s # rest"
    and "s (time_Now_UTC_RFC1123 env) = Inr auth"
    and "ctx = Some x"
    and "HTTPClient c = Some h"
  shows "\<exists>req. fst (ExecuteRequestRaw env c ctx method path body)
           = [EvNewRequest method
                (URL_String env ((APIURL c)\<lparr>Path := path\<rparr>)) rb,
              EvSign 0 (time_Now_UTC_RFC1123 env), EvDo req] \<and>
           Header_Values (Request_Header req) ''date'' = [time_Now_UTC_RFC1123 env] \<and>
           Header_Values (Request_Header req) ''Authorization'' = [auth] \<and>
           Request_URL req = Request_URL r0 \<and> Method req = Method r0 \<and>
           Request_Body req = Request_Body r0"
proof -
  obtain calls out where R: "ExecuteRequestRaw env c ctx method path body = (calls, out)"
    by (cases "ExecuteRequestRaw env c ctx method path body")
  show ?thesis unfolding R fst_conv
    using R assms by (cases rule: Raw_cases)
      (auto simp: Let_def Header_Set_def Header_Values_def canonical_keys)
qed

lemma URIParams_sign_runs:
  "(\<forall>rb r0 s rest.
       (case body of None \<Rightarrow> Inr None
           | Some b \<Rightarrow> (case json_MarshalIndent env b [] ''    '' of
                         Inl err \<Rightarrow> Inl err | Inr marshaled \<Rightarrow> Inr (Some marshaled))) = Inr rb \<longrightarrow>
       http_NewRequest env method (URL_String env (case query of None \<Rightarrow> (APIURL c)\<lparr>Path := path\<rparr>
              | Some q \<Rightarrow> (APIURL c)\<lparr>Path := path, RawQuery := Values_Encode env q\<rparr>)) rb = Inr r0 \<longrightarrow>
       Authorizers c = Some s # rest \<longrightarrow>
       filter is_EvSign (fst (ExecuteRequestURIParams env c ctx method path body query)) = [EvSign 0 (time_Now_UTC_RFC1123 env)] \<and>
       (\<forall>err. s (time_Now_UTC_RFC1123 env) = Inl err \<longrightarrow>
          ExecuteRequestURIParams env c ctx method path body query
            = ([EvNewRequest method (URL_String env (case query of None \<Rightarrow> (APIURL c)\<lparr>Path := path\<rparr>
              | Some q \<Rightarrow> (APIURL c)\<lparr>Path := path, RawQuery := Values_Encode env q\<rparr>)) rb, EvSign 0 (time_Now_UTC_RFC1123 env)],
               Fails (Wrapf ''Error signing HTTP request: {{err}}'' err))))"
  by (intro allI impI conjI)
    (rule URIParams_run_signs, assumption+, rule URIParams_run_sign_fails, assumption+)

lemma URIParams_sent_headers:
  "(\<forall>rb r0 s rest auth x h.
       (case body of None \<Rightarrow> Inr None
           | Some b \<Rightarrow> (case json_MarshalIndent env b [] ''    '' of
                         Inl err \<Rightarrow> Inl err | Inr marshaled \<Rightarrow> Inr (Some marshaled))) = Inr rb \<longrightarrow>
       http_NewRequest env method (URL_String env (case query of None \<Rightarrow> (APIURL c)\<lparr>Path := path\<rparr>
              | Some q \<Rightarrow> (APIURL c)\<lparr>Path := path, RawQuery := Values_Encode env q\<rparr>)) rb = Inr r0 \<longrightarrow>
       Authorizers c = Some s # rest \<longrightarrow>
       s (time_Now_UTC_RFC1123 env) = Inr auth \<longrightarrow>
       ctx = Some x \<longrightarrow>
       HTTPClient c = Some h \<longrightarrow>
       (\<exists>req. fst (ExecuteRequestURIParams env c ctx method path body query)
               = [EvNewRequest method (URL_String env (case query of None \<Rightarrow> (APIURL c)\<lparr>Path := path\<rparr>
              | Some q \<Rightarrow> (APIURL c)\<lparr>Path := path, RawQuery := Values_Encode env q\<rparr>)) rb, EvSign 0 (time_Now_UTC_RFC1123 env), EvDo req] \<and>
             Header_Values (Request_Header req) ''date'' = [time_Now_UTC_RFC1123 env] \<and>
             Header_Values (Request_Header req) ''Authorization'' = [auth]))"
  apply (intro allI impI)
  apply (drule (5) URIParams_run_sent)
  apply (elim exE conjE)
  apply (intro exI conjI; assumption)
  done

lemma URIParams_url_first:
  "(\<forall>rb.
       (case body of None \<Rightarrow> Inr None
           | Some b \<Rightarrow> (case json_MarshalIndent env b [] ''    '' of
                         Inl err \<Rightarrow> Inl err | Inr marshaled \<Rightarrow> Inr (Some marshaled))) = Inr rb \<longrightarrow>
       (\<exists>calls. fst (ExecuteRequestURIParams env c ctx method path body query) = EvNewRequest method (URL_String env (case query of None \<Rightarrow> (APIURL c)\<lparr>Path := path\<rparr>
              | Some q \<Rightarrow> (APIURL c)\<lparr>Path := path, RawQuery := Values_Encode env q\<rparr>)) rb # calls))"
  by (intro allI impI) (erule URIParams_run_first)

lemma URIParams_url_sent:
  "(\<forall>rb r0 s rest auth x h.
       (case body of None \<Rightarrow> Inr None
           | Some b \<Rightarrow> (case json_MarshalIndent env b [] ''    '' of
                         Inl err \<Rightarrow> Inl err | Inr marshaled \<Rightarrow> Inr (Some marshaled))) = Inr rb \<longrightarrow>
       http_NewRequest env method (URL_String env (case query of None \<Rightarrow> (APIURL c)\<lparr>Path := path\<rparr>
              | Some q \<Rightarrow> (APIURL c)\<lparr>Path := path, RawQuery := Values_Encode env q\<rparr>)) rb = Inr r0 \<longrightarrow>
       Authorizers c = Some s # rest \<longrightarrow>
       s (time_Now_UTC_RFC1123 env) = Inr auth \<longrightarrow>
       ctx = Some x \<longrightarrow>
       HTTPClient c = Some h \<longrightarrow>
       (\<exists>req. fst (ExecuteRequestURIParams env c ctx method path body query)
               = [EvNewRequest method (URL_String env (case query of None \<Rightarrow> (APIURL c)\<lparr>Path := path\<rparr>
              | Some q \<Rightarrow> (APIURL c)\<lparr>Path := path, RawQuery := Values_Encode env q\<rparr>)) rb, EvSign 0 (time_Now_UTC_RFC1123 env), EvDo req] \<and>
             Request_URL req = Request_URL r0 \<and> Method req = Method r0))"
  apply (intro allI impI)
  apply (drule (5) URIParams_run_sent)
  apply (elim exE conjE)
  apply (intro exI conjI; assumption)
  done

lemma Raw_sign_runs:
  "(\<forall>rb r0 s rest.
       (case body of None \<Rightarrow> Inr None
           | Some b \<Rightarrow> (case json_MarshalIndent env b [] ''    '' of
                         Inl err \<Rightarrow> Inl err | Inr marshaled \<Rightarrow> Inr (Some marshaled))) = Inr rb \<longrightarrow>
       http_NewRequest env method (URL_String env ((APIURL c)\<lparr>Path := path\<rparr>)) rb = Inr r0 \<longrightarrow>
       Authorizers c = Some s # rest \<longrightarrow>
       filter is_EvSign (fst (ExecuteRequestRaw env c ctx method path body)) = [EvSign 0 (time_Now_UTC_RFC1123 env)] \<and>
       (\<forall>err. s (time_Now_UTC_RFC1123 env) = Inl err \<longrightarrow>
          ExecuteRequestRaw env c ctx method path body
            = ([EvNewRequest method (URL_String env ((APIURL c)\<lparr>Path := path\<rparr>)) rb, EvSign 0 (time_Now_UTC_RFC1123 env)],
               Fails (Wrapf ''Error signing HTTP request: {{err}}'' err))))"
  by (intro allI impI conjI)
    (rule Raw_run_signs, assumption+, rule Raw_run_sign_fails, assumption+)

lemma Raw_sent_headers:
  "(\<forall>rb r0 s rest auth x h.
       (case body of None \<Rightarrow> Inr None
           | Some b \<Rightarrow> (case json_MarshalIndent env b [] ''    '' of
                         Inl err \<Rightarrow> Inl err | Inr marshaled \<Rightarrow> Inr (Some marshaled))) = Inr rb \<longrightarrow>
       http_NewRequest env method (URL_String env ((APIURL c)\<lparr>Path := path\<rparr>)) rb = Inr r0 \<longrightarrow>
       Authorizers c = Some s # rest \<longrightarrow>
       s (time_Now_UTC_RFC1123 env) = Inr auth \<longrightarrow>
       ctx = Some x \<longrightarrow>
       HTTPClient c = Some h \<longrightarrow>
       (\<exists>req. fst (ExecuteRequestRaw env c ctx method path body)
               = [EvNewRequest method (URL_String env ((APIURL c)\<lparr>Path := path\<rparr>)) rb, EvSign 0 (time_Now_UTC_RFC1123 env), EvDo req] \<and>
             Header_Values (Request_Header req) ''date'' = [time_Now_UTC_RFC1123 env] \<and>
             Header_Values (Request_Header req) ''Authorization'' = [auth]))"
  apply (intro allI impI)
  apply (drule (5) Raw_run_sent)
  apply (elim exE conjE)
  apply (intro exI conjI; assumption)
  done

lemma Raw_url_first:
  "(\<forall>rb.
       (case body of None \<Rightarrow> Inr None
           | Some b \<Rightarrow> (case json_MarshalIndent env b [] ''    '' of
                         Inl err \<Rightarrow> Inl err | Inr marshaled \<Rightarrow> Inr (Some marshaled))) = Inr rb \<longrightarrow>
       (\<exists>calls. fst (ExecuteRequestRaw env c ctx method path body) = EvNewRequest method (URL_String env ((APIURL c)\<lparr>Path := path\<rparr>)) rb # calls))"
  by (intro allI impI) (erule Raw_run_first)

lemma Raw_url_sent:
  "(\<forall>rb r0 s rest auth x h.
       (case body of None \<Rightarrow> Inr None
           | Some b \<Rightarrow> (case json_MarshalIndent env b [] ''    '' of
                         Inl err \<Rightarrow> Inl err | Inr marshaled \<Rightarrow> Inr (Some marshaled))) = Inr rb \<longrightarrow>
       http_NewRequest env method (URL_String env ((APIURL c)\<lparr>Path := path\<rparr>)) rb = Inr r0 \<longrightarrow>
       Authorizers c = Some s # rest \<longrightarrow>
       s (time_Now_UTC_RFC1123 env) = Inr auth \<longrightarrow>
       ctx = Some x \<longrightarrow>
       HTTPClient c = Some h \<longrightarrow>
       (\<exists>req. fst (ExecuteRequestRaw env c ctx method path body)
               = [EvNewRequest method (URL_String env ((APIURL c)\<lparr>Path := path\<rparr>)) rb, EvSign 0 (time_Now_UTC_RFC1123 env), EvDo req] \<and>
             Request_URL req = Request_URL r0 \<and> Method req = Method r0))"
  apply (intro allI impI)
  apply (drule (5) Raw_run_sent)
  apply (elim exE conjE)
  apply (intro exI conjI; assumption)
  done

text \<open>The same facts for \<^verbatim>\<open>ExecuteRequest\<close>, which runs \<^verbatim>\<open>ExecuteRequestURIParams\<close> on a nil query.\<close>

lemma ExecuteRequest_first_only:
  "length (filter is_EvSign (fst (ExecuteRequest env c ctx method path body))) \<le> 1 \<and>
    (\<forall>i d. EvSign i d \<in> set (fst (ExecuteRequest env c ctx method path body)) \<longrightarrow>
       i = 0 \<and>
       (\<exists>s rest. Authorizers c = Some s # rest \<and>
          (\<forall>err. s d = Inl err \<longrightarrow>
             snd (ExecuteRequest env c ctx method path body)
               = Fails (Wrapf ''Error signing HTTP request: {{err}}'' err) \<and>
             (\<forall>req. EvDo req \<notin> set (fst (ExecuteRequest env c ctx method path body)))))) \<and>
    (\<forall>a rest rest'. Authorizers c = a # rest \<longrightarrow>
       ExecuteRequest env (c\<lparr>Authorizers := a # rest'\<rparr>) ctx method path body
         = ExecuteRequest env c ctx method path body)"
  unfolding ExecuteRequest_def
  by (rule URIParams_first_only[where query = None, unfolded option.case])

lemma ExecuteRequest_sign_runs:
  "(\<forall>rb r0 s rest.
       (case body of None \<Rightarrow> Inr None
           | Some b \<Rightarrow> (case json_MarshalIndent env b [] ''    '' of
                         Inl err \<Rightarrow> Inl err | Inr marshaled \<Rightarrow> Inr (Some marshaled))) = Inr rb \<longrightarrow>
       http_NewRequest env method (URL_String env ((APIURL c)\<lparr>Path := path\<rparr>)) rb = Inr r0 \<longrightarrow>
       Authorizers c = Some s # rest \<longrightarrow>
       filter is_EvSign (fst (ExecuteRequest env c ctx method path body)) = [EvSign 0 (time_Now_UTC_RFC1123 env)] \<and>
       (\<forall>err. s (time_Now_UTC_RFC1123 env) = Inl err \<longrightarrow>
          ExecuteRequest env c ctx method path body
            = ([EvNewRequest method (URL_String env ((APIURL c)\<lparr>Path := path\<rparr>)) rb, EvSign 0 (time_Now_UTC_RFC1123 env)],
               Fails (Wrapf ''Error signing HTTP request: {{err}}'' err))))"
  unfolding ExecuteRequest_def
  by (rule URIParams_sign_runs[where query = None, unfolded option.case])

lemma ExecuteRequest_date:
  "(\<forall>i d. EvSign i d \<in> set (fst (ExecuteRequest env c ctx method path body)) \<longrightarrow>
       d = time_Now_UTC_RFC1123 env) \<and>
    (\<forall>req. EvDo req \<in> set (fst (ExecuteRequest env c ctx method path body)) \<longrightarrow>
       (\<exists>s rest auth. Authorizers c = Some s # rest \<and>
          EvSign 0 (time_Now_UTC_RFC1123 env)
            \<in> set (fst (ExecuteRequest env c ctx method path body)) \<and>
          s (time_Now_UTC_RFC1123 env) = Inr auth \<and>
          Header_Values (Request_Header req) ''date'' = [time_Now_UTC_RFC1123 env] \<and>
          Header_Values (Request_Header req) ''Authorization'' = [auth]))"
  unfolding ExecuteRequest_def
  by (rule URIParams_date[where query = None, unfolded option.case])

lemma ExecuteRequest_sent_headers:
  "(\<forall>rb r0 s rest auth x h.
       (case body of None \<Rightarrow> Inr None
           | Some b \<Rightarrow> (case json_MarshalIndent env b [] ''    '' of
                         Inl err \<Rightarrow> Inl err | Inr marshaled \<Rightarrow> Inr (Some marshaled))) = Inr rb \<longrightarrow>
       http_NewRequest env method (URL_String env ((APIURL c)\<lparr>Path := path\<rparr>)) rb = Inr r0 \<longrightarrow>
       Authorizers c = Some s # rest \<longrightarrow>
       s (time_Now_UTC_RFC1123 env) = Inr auth \<longrightarrow>
       ctx = Some x \<longrightarrow>
       HTTPClient c = Some h \<longrightarrow>
       (\<exists>req. fst (ExecuteRequest env c ctx method path body)
               = [EvNewRequest method (URL_String env ((APIURL c)\<lparr>Path := path\<rparr>)) rb, EvSign 0 (time_Now_UTC_RFC1123 env), EvDo req] \<and>
             Header_Values (Request_Header req) ''date'' = [time_Now_UTC_RFC1123 env] \<and>
             Header_Values (Request_Header req) ''Authorization'' = [auth]))"
  unfolding ExecuteRequest_def
  by (rule URIParams_sent_headers[where query = None, unfolded option.case])

lemma ExecuteRequest_url_first:
  "(\<forall>rb.
       (case body of None \<Rightarrow> Inr None
           | Some b \<Rightarrow> (case json_MarshalIndent env b [] ''    '' of
                         Inl err \<Rightarrow> Inl err | Inr marshaled \<Rightarrow> Inr (Some marshaled))) = Inr rb \<longrightarrow>
       (\<exists>calls. fst (ExecuteRequest env c ctx method path body) = EvNewRequest method (URL_String env ((APIURL c)\<lparr>Path := path\<rparr>)) rb # calls))"
  unfolding ExecuteRequest_def
  by (rule URIParams_url_first[where query = None, unfolded option.case])

lemma ExecuteRequest_url_sent:
  "(\<forall>rb r0 s rest auth x h.
       (case body of None \<Rightarrow> Inr None
           | Some b \<Rightarrow> (case json_MarshalIndent env b [] ''    '' of
                         Inl err \<Rightarrow> Inl err | Inr marshaled \<Rightarrow> Inr (Some marshaled))) = Inr rb \<longrightarrow>
       http_NewRequest env method (URL_String env ((APIURL c)\<lparr>Path := path\<rparr>)) rb = Inr r0 \<longrightarrow>
       Authorizers c = Some s # rest \<longrightarrow>
       s (time_Now_UTC_RFC1123 env) = Inr auth \<longrightarrow>
       ctx = Some x \<longrightarrow>
       HTTPClient c = Some h \<longrightarrow>
       (\<exists>req. fst (ExecuteRequest env c ctx method path body)
               = [EvNewRequest method (URL_String env ((APIURL c)\<lparr>Path := path\<rparr>)) rb, EvSign 0 (time_Now_UTC_RFC1123 env), EvDo req] \<and>
             Request_URL req = Request_URL r0 \<and> Method req = Method r0))"
  unfolding ExecuteRequest_def
  by (rule URIParams_url_sent[where query = None, unfolded option.case])

lemma example_Raw_GET:
  "\<exists>req resp. ExecuteRequestRaw (example_env []) example_Client (Some 0) ''GET'' ''/my/machines'' None =
     ([EvNewRequest ''GET'' ''https://api.example.com/my/machines'' None,
       EvSign 0 ''Sun, 01 Nov 2026 12:00:00 UTC'', EvDo req],
      Returns resp)"
  by (simp add: ExecuteRequestRaw_def Let_def example_defs)

text \<open>What the example collaborators answer on the inputs of the runs below.\<close>

lemma example_now:
  "time_Now_UTC_RFC1123 (example_env keyID) = ''Sun, 01 Nov 2026 12:00:00 UTC''"
  by (simp add: example_env_def)

lemma example_url:
  "URL_String (example_env []) ((APIURL example_Client)\<lparr>Path := ''/my/machines''\<rparr>)
     = ''https://api.example.com/my/machines''"
  "URL_String (example_env []) ((APIURL example_Client)\<lparr>Path := ''/my/machines'',
       RawQuery := Values_Encode (example_env []) [''limit'' \<mapsto> [''1'']]\<rparr>)
     = ''https://api.example.com/my/machines?limit=1''"
  "APIURL two_signer_Client = APIURL example_Client"
  by (simp_all add: example_defs two_signer_Client_def)

lemma example_request:
  "http_NewRequest (example_env []) ''GET'' ''https://api.example.com/my/machines'' None
     = Inr \<lparr> Method = ''GET'', Request_URL = ''https://api.example.com/my/machines'',
             Request_Header = Map.empty, Request_Body = None, Request_ctx = None \<rparr>"
  "http_NewRequest (example_env []) ''GET'' ''https://api.example.com/my/machines?limit=1'' None
     = Inr \<lparr> Method = ''GET'', Request_URL = ''https://api.example.com/my/machines?limit=1'',
             Request_Header = Map.empty, Request_Body = None, Request_ctx = None \<rparr>"
  by (simp_all add: example_defs Let_def)

subsection \<open>The claims\<close>

text \<open>
  C9. \<^verbatim>\<open>ExecuteRequest\<close> gives, for every context, method, path and body, the calls
  and the result of \<^verbatim>\<open>ExecuteRequestURIParams\<close> on the same arguments with a nil
  query.
\<close>

theorem ExecuteRequest_eq_URIParams_nil_query:
  "ExecuteRequest env c ctx method path body =
   ExecuteRequestURIParams env c ctx method path body None"
  by (simp add: ExecuteRequest_def)

text \<open>
  C2. In each of the three executions at most one call to \<^verbatim>\<open>Sign\<close> is made, it
  is made on \<^verbatim>\<open>Authorizers[0]\<close>, and when that signer answers with an error the
  execution fails with that error wrapped as the signing error and sends
  nothing. The signers after the first have no influence at all: replacing them
  changes neither the calls nor the result. And the call is made: whenever the
  body marshals, the request is built and the first signer is not nil, the
  execution calls \<^verbatim>\<open>Sign\<close> on it exactly once, with the clock's date, and when it
  answers with an error the execution has made just these two calls and fails
  with the signing error.
\<close>

theorem only_first_signer_is_invoked:
  "((length (filter is_EvSign (fst (ExecuteRequestURIParams env c ctx method path body query))) \<le> 1 \<and>
    (\<forall>i d. EvSign i d \<in> set (fst (ExecuteRequestURIParams env c ctx method path body query)) \<longrightarrow>
       i = 0 \<and>
       (\<exists>s rest. Authorizers c = Some s # rest \<and>
          (\<forall>err. s d = Inl err \<longrightarrow>
             snd (ExecuteRequestURIParams env c ctx method path body query)
               = Fails (Wrapf ''Error signing HTTP request: {{err}}'' err) \<and>
             (\<forall>req. EvDo req \<notin> set (fst (ExecuteRequestURIParams env c ctx method path body query)))))) \<and>
    (\<forall>a rest rest'. Authorizers c = a # rest \<longrightarrow>
       ExecuteRequestURIParams env (c\<lparr>Authorizers := a # rest'\<rparr>) ctx method path body query
         = ExecuteRequestURIParams env c ctx method path body query)) \<and>
   ((\<forall>rb r0 s rest.
       (case body of None \<Rightarrow> Inr None
           | Some b \<Rightarrow> (case json_MarshalIndent env b [] ''    '' of
                         Inl err \<Rightarrow> Inl err | Inr marshaled \<Rightarrow> Inr (Some marshaled))) = Inr rb \<longrightarrow>
       http_NewRequest env method (URL_String env (case query of None \<Rightarrow> (APIURL c)\<lparr>Path := path\<rparr>
              | Some q \<Rightarrow> (APIURL c)\<lparr>Path := path, RawQuery := Values_Encode env q\<rparr>)) rb = Inr r0 \<longrightarrow>
       Authorizers c = Some s # rest \<longrightarrow>
       filter is_EvSign (fst (ExecuteRequestURIParams env c ctx method path body query)) = [EvSign 0 (time_Now_UTC_RFC1123 env)] \<and>
       (\<forall>err. s (time_Now_UTC_RFC1123 env) = Inl err \<longrightarrow>
          ExecuteRequestURIParams env c ctx method path body query
            = ([EvNewRequest method (URL_String env (case query of None \<Rightarrow> (APIURL c)\<lparr>Path := path\<rparr>
              | Some q \<Rightarrow> (APIURL c)\<lparr>Path := path, RawQuery := Values_Encode env q\<rparr>)) rb, EvSign 0 (time_Now_UTC_RFC1123 env)],
               Fails (Wrapf ''Error signing HTTP request: {{err}}'' err)))))) \<and>
  ((length (filter is_EvSign (fst (ExecuteRequest env c ctx method path body))) \<le> 1 \<and>
    (\<forall>i d. EvSign i d \<in> set (fst (ExecuteRequest env c ctx method path body)) \<longrightarrow>
       i = 0 \<and>
       (\<exists>s rest. Authorizers c = Some s # rest \<and>
          (\<forall>err. s d = Inl err \<longrightarrow>
             snd (ExecuteRequest env c ctx method path body)
               = Fails (Wrapf ''Error signing HTTP request: {{err}}'' err) \<and>
             (\<forall>req. EvDo req \<notin> set (fst (ExecuteRequest env c ctx method path body)))))) \<and>
    (\<forall>a rest rest'. Authorizers c = a # rest \<longrightarrow>
       ExecuteRequest env (c\<lparr>Authorizers := a # rest'\<rparr>) ctx method path body
         = ExecuteRequest env c ctx method path body)) \<and>
   ((\<forall>rb r0 s rest.
       (case body of None \<Rightarrow> Inr None
           | Some b \<Rightarrow> (case json_MarshalIndent env b [] ''    '' of
                         Inl err \<Rightarrow> Inl err | Inr marshaled \<Rightarrow> Inr (Some marshaled))) = Inr rb \<longrightarrow>
       http_NewRequest env method (URL_String env ((APIURL c)\<lparr>Path := path\<rparr>)) rb = Inr r0 \<longrightarrow>
       Authorizers c = Some s # rest \<longrightarrow>
       filter is_EvSign (fst (ExecuteRequest env c ctx method path body)) = [EvSign 0 (time_Now_UTC_RFC1123 env)] \<and>
       (\<forall>err. s (time_Now_UTC_RFC1123 env) = Inl err \<longrightarrow>
          ExecuteRequest env c ctx method path body
            = ([EvNewRequest method (URL_String env ((APIURL c)\<lparr>Path := path\<rparr>)) rb, EvSign 0 (time_Now_UTC_RFC1123 env)],
               Fails (Wrapf ''Error signing HTTP request: {{err}}'' err)))))) \<and>
  ((length (filter is_EvSign (fst (ExecuteRequestRaw env c ctx method path body))) \<le> 1 \<and>
    (\<forall>i d. EvSign i d \<in> set (fst (ExecuteRequestRaw env c ctx method path body)) \<longrightarrow>
       i = 0 \<and>
       (\<exists>s rest. Authorizers c = Some s # rest \<and>
          (\<forall>err. s d = Inl err \<longrightarrow>
             snd (ExecuteRequestRaw env c ctx method path body)
               = Fails (Wrapf ''Error signing HTTP request: {{err}}'' err) \<and>
             (\<forall>req. EvDo req \<notin> set (fst (ExecuteRequestRaw env c ctx method path body)))))) \<and>
    (\<forall>a rest rest'. Authorizers c = a # rest \<longrightarrow>
       ExecuteRequestRaw env (c\<lparr>Authorizers := a # rest'\<rparr>) ctx method path body
         = ExecuteRequestRaw env c ctx method path body)) \<and>
   ((\<forall>rb r0 s rest.
       (case body of None \<Rightarrow> Inr None
           | Some b \<Rightarrow> (case json_MarshalIndent env b [] ''    '' of
                         Inl err \<Rightarrow> Inl err | Inr marshaled \<Rightarrow> Inr (Some marshaled))) = Inr rb \<longrightarrow>
       http_NewRequest env method (URL_String env ((APIURL c)\<lparr>Path := path\<rparr>)) rb = Inr r0 \<longrightarrow>
       Authorizers c = Some s # rest \<longrightarrow>
       filter is_EvSign (fst (ExecuteRequestRaw env c ctx method path body)) = [EvSign 0 (time_Now_UTC_RFC1123 env)] \<and>
       (\<forall>err. s (time_Now_UTC_RFC1123 env) = Inl err \<longrightarrow>
          ExecuteRequestRaw env c ctx method path body
            = ([EvNewRequest method (URL_String env ((APIURL c)\<lparr>Path := path\<rparr>)) rb, EvSign 0 (time_Now_UTC_RFC1123 env)],
               Fails (Wrapf ''Error signing HTTP request: {{err}}'' err))))))"
  by (rule conjI[OF conjI[OF URIParams_first_only URIParams_sign_runs] conjI[OF conjI[OF ExecuteRequest_first_only ExecuteRequest_sign_runs] conjI[OF Raw_first_only Raw_sign_runs]]])

text \<open>
  A first signer that fails before a second that would succeed: each of the
  three executions builds the request, calls the first signer and fails.
\<close>

theorem only_first_signer_is_invoked_witness:
  "ExecuteRequestURIParams (example_env []) two_signer_Client (Some 0) ''GET'' ''/my/machines'' None (Some [''limit'' \<mapsto> [''1'']])
     = ([EvNewRequest ''GET'' ''https://api.example.com/my/machines?limit=1'' None, EvSign 0 ''Sun, 01 Nov 2026 12:00:00 UTC''],
        Fails (Wrapf ''Error signing HTTP request: {{err}}'' (External ''agent: no key to sign with''))) \<and>
   ExecuteRequest (example_env []) two_signer_Client (Some 0) ''GET'' ''/my/machines'' None
     = ([EvNewRequest ''GET'' ''https://api.example.com/my/machines'' None, EvSign 0 ''Sun, 01 Nov 2026 12:00:00 UTC''],
        Fails (Wrapf ''Error signing HTTP request: {{err}}'' (External ''agent: no key to sign with''))) \<and>
   ExecuteRequestRaw (example_env []) two_signer_Client (Some 0) ''GET'' ''/my/machines'' None
     = ([EvNewRequest ''GET'' ''https://api.example.com/my/machines'' None, EvSign 0 ''Sun, 01 Nov 2026 12:00:00 UTC''],
        Fails (Wrapf ''Error signing HTTP request: {{err}}'' (External ''agent: no key to sign with''))) \<and>
   ExecuteRequest (example_env []) two_signer_Client (Some 0) ''GET'' ''/my/machines'' None
     = ExecuteRequest (example_env [])
         (two_signer_Client\<lparr>Authorizers := [Some failing_Signer]\<rparr>) (Some 0) ''GET'' ''/my/machines'' None"
proof -
  note T = only_first_signer_is_invoked[of "example_env []" two_signer_Client
      "Some 0" "''GET''" "''/my/machines''" None "Some [''limit'' \<mapsto> [''1'']]",
      unfolded option.case]
  have a: "Authorizers two_signer_Client
      = Some failing_Signer # [Some (example_Signer ''aa:bb'' ''acct'')]"
    by (simp add: two_signer_Client_def)
  have sf: "failing_Signer (time_Now_UTC_RFC1123 (example_env []))
      = Inl (External ''agent: no key to sign with'')"
    by (simp add: failing_Signer_def)
  have r0: "ExecuteRequestURIParams (example_env []) two_signer_Client (Some 0) ''GET'' ''/my/machines'' None (Some [''limit'' \<mapsto> [''1'']])
     = ([EvNewRequest ''GET'' ''https://api.example.com/my/machines?limit=1'' None, EvSign 0 ''Sun, 01 Nov 2026 12:00:00 UTC''],
        Fails (Wrapf ''Error signing HTTP request: {{err}}'' (External ''agent: no key to sign with'')))"
    using T[THEN conjunct1, THEN conjunct2, rule_format, THEN conjunct2, rule_format,
        OF refl _ a sf, of "\<lparr> Method = ''GET'', Request_URL = ''https://api.example.com/my/machines?limit=1'', Request_Header = Map.empty, Request_Body = None, Request_ctx = None \<rparr>"]
    by (simp add: example_url example_now example_request)
  have r1: "ExecuteRequest (example_env []) two_signer_Client (Some 0) ''GET'' ''/my/machines'' None
     = ([EvNewRequest ''GET'' ''https://api.example.com/my/machines'' None, EvSign 0 ''Sun, 01 Nov 2026 12:00:00 UTC''],
        Fails (Wrapf ''Error signing HTTP request: {{err}}'' (External ''agent: no key to sign with'')))"
    using T[THEN conjunct2, THEN conjunct1, THEN conjunct2, rule_format, THEN conjunct2, rule_format,
        OF refl _ a sf, of "\<lparr> Method = ''GET'', Request_URL = ''https://api.example.com/my/machines'', Request_Header = Map.empty, Request_Body = None, Request_ctx = None \<rparr>"]
    by (simp add: example_url example_now example_request)
  have r2: "ExecuteRequestRaw (example_env []) two_signer_Client (Some 0) ''GET'' ''/my/machines'' None
     = ([EvNewRequest ''GET'' ''https://api.example.com/my/machines'' None, EvSign 0 ''Sun, 01 Nov 2026 12:00:00 UTC''],
        Fails (Wrapf ''Error signing HTTP request: {{err}}'' (External ''agent: no key to sign with'')))"
    using T[THEN conjunct2, THEN conjunct2, THEN conjunct2, rule_format, THEN conjunct2, rule_format,
        OF refl _ a sf, of "\<lparr> Method = ''GET'', Request_URL = ''https://api.example.com/my/machines'', Request_Header = Map.empty, Request_Body = None, Request_ctx = None \<rparr>"]
    by (simp add: example_url example_now example_request)
  from T[THEN conjunct2, THEN conjunct1, THEN conjunct1, THEN conjunct2, THEN conjunct2,
      rule_format, OF a, of "[]"]
  have "ExecuteRequest (example_env [])
         (two_signer_Client\<lparr>Authorizers := [Some failing_Signer]\<rparr>) (Some 0) ''GET'' ''/my/machines'' None
       = ExecuteRequest (example_env []) two_signer_Client (Some 0) ''GET'' ''/my/machines'' None" .
  with r0 r1 r2 show ?thesis by simp
qed

text \<open>
  C3. In each of the three executions every call to \<^verbatim>\<open>Sign\<close> is given the clock's
  RFC 1123 date string, and the request that is sent carries exactly that
  string as its only \<^verbatim>\<open>date\<close> header and, as its only \<^verbatim>\<open>Authorization\<close> header,
  what the first signer answered for that same string. And the request is sent:
  whenever the body marshals, the request is built, the first signer answers,
  and the context and the HTTP client are not nil, the execution builds the
  request, signs the date and sends a request with these two headers.
\<close>

theorem signed_date_is_date_header:
  "(((\<forall>i d. EvSign i d \<in> set (fst (ExecuteRequestURIParams env c ctx method path body query)) \<longrightarrow>
       d = time_Now_UTC_RFC1123 env) \<and>
    (\<forall>req. EvDo req \<in> set (fst (ExecuteRequestURIParams env c ctx method path body query)) \<longrightarrow>
       (\<exists>s rest auth. Authorizers c = Some s # rest \<and>
          EvSign 0 (time_Now_UTC_RFC1123 env)
            \<in> set (fst (ExecuteRequestURIParams env c ctx method path body query)) \<and>
          s (time_Now_UTC_RFC1123 env) = Inr auth \<and>
          Header_Values (Request_Header req) ''date'' = [time_Now_UTC_RFC1123 env] \<and>
          Header_Values (Request_Header req) ''Authorization'' = [auth]))) \<and>
   ((\<forall>rb r0 s rest auth x h.
       (case body of None \<Rightarrow> Inr None
           | Some b \<Rightarrow> (case json_MarshalIndent env b [] ''    '' of
                         Inl err \<Rightarrow> Inl err | Inr marshaled \<Rightarrow> Inr (Some marshaled))) = Inr rb \<longrightarrow>
       http_NewRequest env method (URL_String env (case query of None \<Rightarrow> (APIURL c)\<lparr>Path := path\<rparr>
              | Some q \<Rightarrow> (APIURL c)\<lparr>Path := path, RawQuery := Values_Encode env q\<rparr>)) rb = Inr r0 \<longrightarrow>
       Authorizers c = Some s # rest \<longrightarrow>
       s (time_Now_UTC_RFC1123 env) = Inr auth \<longrightarrow>
       ctx = Some x \<longrightarrow>
       HTTPClient c = Some h \<longrightarrow>
       (\<exists>req. fst (ExecuteRequestURIParams env c ctx method path body query)
               = [EvNewRequest method (URL_String env (case query of None \<Rightarrow> (APIURL c)\<lparr>Path := path\<rparr>
              | Some q \<Rightarrow> (APIURL c)\<lparr>Path := path, RawQuery := Values_Encode env q\<rparr>)) rb, EvSign 0 (time_Now_UTC_RFC1123 env), EvDo req] \<and>
             Header_Values (Request_Header req) ''date'' = [time_Now_UTC_RFC1123 env] \<and>
             Header_Values (Request_Header req) ''Authorization'' = [auth])))) \<and>
  (((\<forall>i d. EvSign i d \<in> set (fst (ExecuteRequest env c ctx method path body)) \<longrightarrow>
       d = time_Now_UTC_RFC1123 env) \<and>
    (\<forall>req. EvDo req \<in> set (fst (ExecuteRequest env c ctx method path body)) \<longrightarrow>
       (\<exists>s rest auth. Authorizers c = Some s # rest \<and>
          EvSign 0 (time_Now_UTC_RFC1123 env)
            \<in> set (fst (ExecuteRequest env c ctx method path body)) \<and>
          s (time_Now_UTC_RFC1123 env) = Inr auth \<and>
          Header_Values (Request_Header req) ''date'' = [time_Now_UTC_RFC1123 env] \<and>
          Header_Values (Request_Header req) ''Authorization'' = [auth]))) \<and>
   ((\<forall>rb r0 s rest auth x h.
       (case body of None \<Rightarrow> Inr None
           | Some b \<Rightarrow> (case json_MarshalIndent env b [] ''    '' of
                         Inl err \<Rightarrow> Inl err | Inr marshaled \<Rightarrow> Inr (Some marshaled))) = Inr rb \<longrightarrow>
       http_NewRequest env method (URL_String env ((APIURL c)\<lparr>Path := path\<rparr>)) rb = Inr r0 \<longrightarrow>
       Authorizers c = Some s # rest \<longrightarrow>
       s (time_Now_UTC_RFC1123 env) = Inr auth \<longrightarrow>
       ctx = Some x \<longrightarrow>
       HTTPClient c = Some h \<longrightarrow>
       (\<exists>req. fst (ExecuteRequest env c ctx method path body)
               = [EvNewRequest method (URL_String env ((APIURL c)\<lparr>Path := path\<rparr>)) rb, EvSign 0 (time_Now_UTC_RFC1123 env), EvDo req] \<and>
             Header_Values (Request_Header req) ''date'' = [time_Now_UTC_RFC1123 env] \<and>
             Header_Values (Request_Header req) ''Authorization'' = [auth])))) \<and>
  (((\<forall>i d. EvSign i d \<in> set (fst (ExecuteRequestRaw env c ctx method path body)) \<longrightarrow>
       d = time_Now_UTC_RFC1123 env) \<and>
    (\<forall>req. EvDo req \<in> set (fst (ExecuteRequestRaw env c ctx method path body)) \<longrightarrow>
       (\<exists>s rest auth. Authorizers c = Some s # rest \<and>
          EvSign 0 (time_Now_UTC_RFC1123 env)
            \<in> set (fst (ExecuteRequestRaw env c ctx method path body)) \<and>
          s (time_Now_UTC_RFC1123 env) = Inr auth \<and>
          Header_Values (Request_Header req) ''date'' = [time_Now_UTC_RFC1123 env] \<and>
          Header_Values (Request_Header req) ''Authorization'' = [auth]))) \<and>
   ((\<forall>rb r0 s rest auth x h.
       (case body of None \<Rightarrow> Inr None
           | Some b \<Rightarrow> (case json_MarshalIndent env b [] ''    '' of
                         Inl err \<Rightarrow> Inl err | Inr marshaled \<Rightarrow> Inr (Some marshaled))) = Inr rb \<longrightarrow>
       http_NewRequest env method (URL_String env ((APIURL c)\<lparr>Path := path\<rparr>)) rb = Inr r0 \<longrightarrow>
       Authorizers c = Some s # rest \<longrightarrow>
       s (time_Now_UTC_RFC1123 env) = Inr auth \<longrightarrow>
       ctx = Some x \<longrightarrow>
       HTTPClient c = Some h \<longrightarrow>
       (\<exists>req. fst (ExecuteRequestRaw env c ctx method path body)
               = [EvNewRequest method (URL_String env ((APIURL c)\<lparr>Path := path\<rparr>)) rb, EvSign 0 (time_Now_UTC_RFC1123 env), EvDo req] \<and>
             Header_Values (Request_Header req) ''date'' = [time_Now_UTC_RFC1123 env] \<and>
             Header_Values (Request_Header req) ''Authorization'' = [auth]))))"
  by (rule conjI[OF conjI[OF URIParams_date URIParams_sent_headers] conjI[OF conjI[OF ExecuteRequest_date ExecuteRequest_sent_headers] conjI[OF Raw_date Raw_sent_headers]]])

text \<open>Each of the three executions on the example Client signs and sends the date.\<close>

theorem signed_date_is_date_header_witness:
  "(\<exists>req. fst (ExecuteRequestURIParams (example_env []) example_Client (Some 0) ''GET'' ''/my/machines'' None (Some [''limit'' \<mapsto> [''1'']]))
       = [EvNewRequest ''GET'' ''https://api.example.com/my/machines?limit=1'' None, EvSign 0 ''Sun, 01 Nov 2026 12:00:00 UTC'', EvDo req] \<and>
     Header_Values (Request_Header req) ''date'' = [''Sun, 01 Nov 2026 12:00:00 UTC''] \<and>
     Header_Values (Request_Header req) ''Authorization''
       = [''Signature keyId=/acct/keys/aa:bb date: Sun, 01 Nov 2026 12:00:00 UTC'']) \<and>
   (\<exists>req. fst (ExecuteRequest (example_env []) example_Client (Some 0) ''GET'' ''/my/machines'' None)
       = [EvNewRequest ''GET'' ''https://api.example.com/my/machines'' None, EvSign 0 ''Sun, 01 Nov 2026 12:00:00 UTC'', EvDo req] \<and>
     Header_Values (Request_Header req) ''date'' = [''Sun, 01 Nov 2026 12:00:00 UTC''] \<and>
     Header_Values (Request_Header req) ''Authorization''
       = [''Signature keyId=/acct/keys/aa:bb date: Sun, 01 Nov 2026 12:00:00 UTC'']) \<and>
   (\<exists>req. fst (ExecuteRequestRaw (example_env []) example_Client (Some 0) ''GET'' ''/my/machines'' None)
       = [EvNewRequest ''GET'' ''https://api.example.com/my/machines'' None, EvSign 0 ''Sun, 01 Nov 2026 12:00:00 UTC'', EvDo req] \<and>
     Header_Values (Request_Header req) ''date'' = [''Sun, 01 Nov 2026 12:00:00 UTC''] \<and>
     Header_Values (Request_Header req) ''Authorization''
       = [''Signature keyId=/acct/keys/aa:bb date: Sun, 01 Nov 2026 12:00:00 UTC''])"
proof -
  note T = signed_date_is_date_header[of "example_env []" example_Client
      "Some 0" "''GET''" "''/my/machines''" None "Some [''limit'' \<mapsto> [''1'']]",
      unfolded option.case]
  have a: "Authorizers example_Client = Some (example_Signer ''aa:bb'' ''acct'') # []"
    by (simp add: example_Client_def)
  have sk: "example_Signer ''aa:bb'' ''acct'' (time_Now_UTC_RFC1123 (example_env []))
      = Inr ''Signature keyId=/acct/keys/aa:bb date: Sun, 01 Nov 2026 12:00:00 UTC''"
    by (simp add: example_Signer_def example_env_def)
  have hc: "HTTPClient example_Client
      = Some \<lparr> Transport = httpTransport False, CheckRedirect = doNotFollowRedirects \<rparr>"
    by (simp add: example_Client_def)
  have r0: "(\<exists>req. fst (ExecuteRequestURIParams (example_env []) example_Client (Some 0) ''GET'' ''/my/machines'' None (Some [''limit'' \<mapsto> [''1'']]))
       = [EvNewRequest ''GET'' ''https://api.example.com/my/machines?limit=1'' None, EvSign 0 ''Sun, 01 Nov 2026 12:00:00 UTC'', EvDo req] \<and>
     Header_Values (Request_Header req) ''date'' = [''Sun, 01 Nov 2026 12:00:00 UTC''] \<and>
     Header_Values (Request_Header req) ''Authorization''
       = [''Signature keyId=/acct/keys/aa:bb date: Sun, 01 Nov 2026 12:00:00 UTC''])"
    using T[THEN conjunct1, THEN conjunct2, rule_format, OF refl _ a sk refl hc,
        of "\<lparr> Method = ''GET'', Request_URL = ''https://api.example.com/my/machines?limit=1'', Request_Header = Map.empty, Request_Body = None, Request_ctx = None \<rparr>"]
    by (simp add: example_url example_now example_request)
  have r1: "(\<exists>req. fst (ExecuteRequest (example_env []) example_Client (Some 0) ''GET'' ''/my/machines'' None)
       = [EvNewRequest ''GET'' ''https://api.example.com/my/machines'' None, EvSign 0 ''Sun, 01 Nov 2026 12:00:00 UTC'', EvDo req] \<and>
     Header_Values (Request_Header req) ''date'' = [''Sun, 01 Nov 2026 12:00:00 UTC''] \<and>
     Header_Values (Request_Header req) ''Authorization''
       = [''Signature keyId=/acct/keys/aa:bb date: Sun, 01 Nov 2026 12:00:00 UTC''])"
    using T[THEN conjunct2, THEN conjunct1, THEN conjunct2, rule_format, OF refl _ a sk refl hc,
        of "\<lparr> Method = ''GET'', Request_URL = ''https://api.example.com/my/machines'', Request_Header = Map.empty, Request_Body = None, Request_ctx = None \<rparr>"]
    by (simp add: example_url example_now example_request)
  have r2: "(\<exists>req. fst (ExecuteRequestRaw (example_env []) example_Client (Some 0) ''GET'' ''/my/machines'' None)
       = [EvNewRequest ''GET'' ''https://api.example.com/my/machines'' None, EvSign 0 ''Sun, 01 Nov 2026 12:00:00 UTC'', EvDo req] \<and>
     Header_Values (Request_Header req) ''date'' = [''Sun, 01 Nov 2026 12:00:00 UTC''] \<and>
     Header_Values (Request_Header req) ''Authorization''
       = [''Signature keyId=/acct/keys/aa:bb date: Sun, 01 Nov 2026 12:00:00 UTC''])"
    using T[THEN conjunct2, THEN conjunct2, THEN conjunct2, rule_format, OF refl _ a sk refl hc,
        of "\<lparr> Method = ''GET'', Request_URL = ''https://api.example.com/my/machines'', Request_Header = Map.empty, Request_Body = None, Request_ctx = None \<rparr>"]
    by (simp add: example_url example_now example_request)
  from r0 r1 r2 show ?thesis by (intro conjI)
qed



text \<open>
  C10. \<^verbatim>\<open>ExecuteRequestRaw\<close> takes no query parameters and leaves the query of the
  URL alone: the URL it requests is the printed form of the Client's \<^verbatim>\<open>APIURL\<close>
  with only \<^verbatim>\<open>Path\<close> replaced, so \<^verbatim>\<open>RawQuery\<close> and \<^verbatim>\<open>ForceQuery\<close> are those of the
  \<^verbatim>\<open>APIURL\<close>, and the request that is sent is the one built for that URL.
\<close>

theorem ExecuteRequestRaw_keeps_query:
  "RawQuery ((APIURL c)\<lparr>Path := path\<rparr>) = RawQuery (APIURL c) \<and>
   ForceQuery ((APIURL c)\<lparr>Path := path\<rparr>) = ForceQuery (APIURL c) \<and>
   (\<forall>m url b. EvNewRequest m url b \<in> set (fst (ExecuteRequestRaw env c ctx method path body)) \<longrightarrow>
      url = URL_String env ((APIURL c)\<lparr>Path := path\<rparr>)) \<and>
   (\<forall>req. EvDo req \<in> set (fst (ExecuteRequestRaw env c ctx method path body)) \<longrightarrow>
      (\<exists>b r0. http_NewRequest env method (URL_String env ((APIURL c)\<lparr>Path := path\<rparr>)) b = Inr r0
               \<and> Request_URL req = Request_URL r0))"
  using Raw_url[of env c ctx "method" "path" body] by (simp; blast)

theorem ExecuteRequestRaw_keeps_query_witness:
  "EvNewRequest ''POST'' ''https://api.example.com/my/machines?v=2'' None
     \<in> set (fst (ExecuteRequestRaw (example_env []) query_Client (Some 0) ''POST'' ''/my/machines'' None)) \<and>
   ''https://api.example.com/my/machines?v=2''
     = URL_String (example_env []) ((APIURL query_Client)\<lparr>Path := ''/my/machines''\<rparr>) \<and>
   RawQuery (APIURL query_Client) = ''v=2''"
proof -
  from example_Raw
  have m: "EvNewRequest ''POST'' ''https://api.example.com/my/machines?v=2'' None
     \<in> set (fst (ExecuteRequestRaw (example_env []) query_Client (Some 0) ''POST'' ''/my/machines'' None))"
    by auto
  from ExecuteRequestRaw_keeps_query[of "''/my/machines''" query_Client "example_env []"
      "Some 0" "''POST''" None,
      THEN conjunct2, THEN conjunct2, THEN conjunct1, rule_format, OF m]
  have "''https://api.example.com/my/machines?v=2''
     = URL_String (example_env []) ((APIURL query_Client)\<lparr>Path := ''/my/machines''\<rparr>)" .
  with m show ?thesis by (simp add: query_Client_def)
qed

text \<open>
  C5, as amended. In each execution the URL requested is the printed form of
  the Client's parsed \<^verbatim>\<open>APIURL\<close> with its \<^verbatim>\<open>Path\<close> replaced by the given path, every
  other component kept; \<^verbatim>\<open>ExecuteRequestURIParams\<close> also replaces \<^verbatim>\<open>RawQuery\<close> by the
  encoded parameters when it is given some. The request that is sent is the
  one built for that URL and the given method. And the URL is requested:
  whenever the body marshals, the first call of the execution builds the
  request for that URL, and when signing succeeds and the context and the HTTP
  client are not nil the request built for it is the one that is sent.
\<close>

theorem Execute_target_URL:
  "(((\<forall>m url b. EvNewRequest m url b \<in> set (fst (ExecuteRequestURIParams env c ctx method path body query)) \<longrightarrow>
       m = method \<and>
       url = URL_String env (case query of None \<Rightarrow> (APIURL c)\<lparr>Path := path\<rparr>
              | Some q \<Rightarrow> (APIURL c)\<lparr>Path := path, RawQuery := Values_Encode env q\<rparr>)) \<and>
    (\<forall>req. EvDo req \<in> set (fst (ExecuteRequestURIParams env c ctx method path body query)) \<longrightarrow>
       (\<exists>b r0. http_NewRequest env method
                  (URL_String env (case query of None \<Rightarrow> (APIURL c)\<lparr>Path := path\<rparr>
              | Some q \<Rightarrow> (APIURL c)\<lparr>Path := path, RawQuery := Values_Encode env q\<rparr>)) b = Inr r0
                \<and> Request_URL req = Request_URL r0 \<and> Method req = Method r0))) \<and>
   ((\<forall>rb.
       (case body of None \<Rightarrow> Inr None
           | Some b \<Rightarrow> (case json_MarshalIndent env b [] ''    '' of
                         Inl err \<Rightarrow> Inl err | Inr marshaled \<Rightarrow> Inr (Some marshaled))) = Inr rb \<longrightarrow>
       (\<exists>calls. fst (ExecuteRequestURIParams env c ctx method path body query) = EvNewRequest method (URL_String env (case query of None \<Rightarrow> (APIURL c)\<lparr>Path := path\<rparr>
              | Some q \<Rightarrow> (APIURL c)\<lparr>Path := path, RawQuery := Values_Encode env q\<rparr>)) rb # calls))) \<and>
   ((\<forall>rb r0 s rest auth x h.
       (case body of None \<Rightarrow> Inr None
           | Some b \<Rightarrow> (case json_MarshalIndent env b [] ''    '' of
                         Inl err \<Rightarrow> Inl err | Inr marshaled \<Rightarrow> Inr (Some marshaled))) = Inr rb \<longrightarrow>
       http_NewRequest env method (URL_String env (case query of None \<Rightarrow> (APIURL c)\<lparr>Path := path\<rparr>
              | Some q \<Rightarrow> (APIURL c)\<lparr>Path := path, RawQuery := Values_Encode env q\<rparr>)) rb = Inr r0 \<longrightarrow>
       Authorizers c = Some s # rest \<longrightarrow>
       s (time_Now_UTC_RFC1123 env) = Inr auth \<longrightarrow>
       ctx = Some x \<longrightarrow>
       HTTPClient c = Some h \<longrightarrow>
       (\<exists>req. fst (ExecuteRequestURIParams env c ctx method path body query)
               = [EvNewRequest method (URL_String env (case query of None \<Rightarrow> (APIURL c)\<lparr>Path := path\<rparr>
              | Some q \<Rightarrow> (APIURL c)\<lparr>Path := path, RawQuery := Values_Encode env q\<rparr>)) rb, EvSign 0 (time_Now_UTC_RFC1123 env), EvDo req] \<and>
             Request_URL req = Request_URL r0 \<and> Method req = Method r0)))) \<and>
  (((\<forall>m url b. EvNewRequest m url b \<in> set (fst (ExecuteRequest env c ctx method path body)) \<longrightarrow>
       m = method \<and>
       url = URL_String env ((APIURL c)\<lparr>Path := path\<rparr>)) \<and>
    (\<forall>req. EvDo req \<in> set (fst (ExecuteRequest env c ctx method path body)) \<longrightarrow>
       (\<exists>b r0. http_NewRequest env method
                  (URL_String env ((APIURL c)\<lparr>Path := path\<rparr>)) b = Inr r0
                \<and> Request_URL req = Request_URL r0 \<and> Method req = Method r0))) \<and>
   ((\<forall>rb.
       (case body of None \<Rightarrow> Inr None
           | Some b \<Rightarrow> (case json_MarshalIndent env b [] ''    '' of
                         Inl err \<Rightarrow> Inl err | Inr marshaled \<Rightarrow> Inr (Some marshaled))) = Inr rb \<longrightarrow>
       (\<exists>calls. fst (ExecuteRequest env c ctx method path body) = EvNewRequest method (URL_String env ((APIURL c)\<lparr>Path := path\<rparr>)) rb # calls))) \<and>
   ((\<forall>rb r0 s rest auth x h.
       (case body of None \<Rightarrow> Inr None
           | Some b \<Rightarrow> (case json_MarshalIndent env b [] ''    '' of
                         Inl err \<Rightarrow> Inl err | Inr marshaled \<Rightarrow> Inr (Some marshaled))) = Inr rb \<longrightarrow>
       http_NewRequest env method (URL_String env ((APIURL c)\<lparr>Path := path\<rparr>)) rb = Inr r0 \<longrightarrow>
       Authorizers c = Some s # rest \<longrightarrow>
       s (time_Now_UTC_RFC1123 env) = Inr auth \<longrightarrow>
       ctx = Some x \<longrightarrow>
       HTTPClient c = Some h \<longrightarrow>
       (\<exists>req. fst (ExecuteRequest env c ctx method path body)
               = [EvNewRequest method (URL_String env ((APIURL c)\<lparr>Path := path\<rparr>)) rb, EvSign 0 (time_Now_UTC_RFC1123 env), EvDo req] \<and>
             Request_URL req = Request_URL r0 \<and> Method req = Method r0)))) \<and>
  (((\<forall>m url b. EvNewRequest m url b \<in> set (fst (ExecuteRequestRaw env c ctx method path body)) \<longrightarrow>
       m = method \<and>
       url = URL_String env ((APIURL c)\<lparr>Path := path\<rparr>)) \<and>
    (\<forall>req. EvDo req \<in> set (fst (ExecuteRequestRaw env c ctx method path body)) \<longrightarrow>
       (\<exists>b r0. http_NewRequest env method
                  (URL_String env ((APIURL c)\<lparr>Path := path\<rparr>)) b = Inr r0
                \<and> Request_URL req = Request_URL r0 \<and> Method req = Method r0))) \<and>
   ((\<forall>rb.
       (case body of None \<Rightarrow> Inr None
           | Some b \<Rightarrow> (case json_MarshalIndent env b [] ''    '' of
                         Inl err \<Rightarrow> Inl err | Inr marshaled \<Rightarrow> Inr (Some marshaled))) = Inr rb \<longrightarrow>
       (\<exists>calls. fst (ExecuteRequestRaw env c ctx method path body) = EvNewRequest method (URL_String env ((APIURL c)\<lparr>Path := path\<rparr>)) rb # calls))) \<and>
   ((\<forall>rb r0 s rest auth x h.
       (case body of None \<Rightarrow> Inr None
           | Some b \<Rightarrow> (case json_MarshalIndent env b [] ''    '' of
                         Inl err \<Rightarrow> Inl err | Inr marshaled \<Rightarrow> Inr (Some marshaled))) = Inr rb \<longrightarrow>
       http_NewRequest env method (URL_String env ((APIURL c)\<lparr>Path := path\<rparr>)) rb = Inr r0 \<longrightarrow>
       Authorizers c = Some s # rest \<longrightarrow>
       s (time_Now_UTC_RFC1123 env) = Inr auth \<longrightarrow>
       ctx = Some x \<longrightarrow>
       HTTPClient c = Some h \<longrightarrow>
       (\<exists>req. fst (ExecuteRequestRaw env c ctx method path body)
               = [EvNewRequest method (URL_String env ((APIURL c)\<lparr>Path := path\<rparr>)) rb, EvSign 0 (time_Now_UTC_RFC1123 env), EvDo req] \<and>
             Request_URL req = Request_URL r0 \<and> Method req = Method r0))))"
  by (rule conjI[OF conjI[OF URIParams_url conjI[OF URIParams_url_first URIParams_url_sent]] conjI[OF conjI[OF ExecuteRequest_url conjI[OF ExecuteRequest_url_first ExecuteRequest_url_sent]] conjI[OF Raw_url conjI[OF Raw_url_first Raw_url_sent]]]])

text \<open>
  Each of the three executions on the Client of the endpoint
  \<^verbatim>\<open>https://api.example.com/v1\<close> requests the URL with the path replaced.
\<close>

theorem Execute_target_URL_witness:
  "(\<exists>calls. fst (ExecuteRequestURIParams (example_env []) example_Client (Some 0) ''GET'' ''/my/machines'' None (Some [''limit'' \<mapsto> [''1'']]))
       = EvNewRequest ''GET'' ''https://api.example.com/my/machines?limit=1'' None # calls) \<and>
   (\<exists>req. fst (ExecuteRequestURIParams (example_env []) example_Client (Some 0) ''GET'' ''/my/machines'' None (Some [''limit'' \<mapsto> [''1'']]))
       = [EvNewRequest ''GET'' ''https://api.example.com/my/machines?limit=1'' None, EvSign 0 ''Sun, 01 Nov 2026 12:00:00 UTC'', EvDo req] \<and>
     Request_URL req = ''https://api.example.com/my/machines?limit=1'' \<and> Method req = ''GET'') \<and>
   (\<exists>calls. fst (ExecuteRequest (example_env []) example_Client (Some 0) ''GET'' ''/my/machines'' None)
       = EvNewRequest ''GET'' ''https://api.example.com/my/machines'' None # calls) \<and>
   (\<exists>req. fst (ExecuteRequest (example_env []) example_Client (Some 0) ''GET'' ''/my/machines'' None)
       = [EvNewRequest ''GET'' ''https://api.example.com/my/machines'' None, EvSign 0 ''Sun, 01 Nov 2026 12:00:00 UTC'', EvDo req] \<and>
     Request_URL req = ''https://api.example.com/my/machines'' \<and> Method req = ''GET'') \<and>
   (\<exists>calls. fst (ExecuteRequestRaw (example_env []) example_Client (Some 0) ''GET'' ''/my/machines'' None)
       = EvNewRequest ''GET'' ''https://api.example.com/my/machines'' None # calls) \<and>
   (\<exists>req. fst (ExecuteRequestRaw (example_env []) example_Client (Some 0) ''GET'' ''/my/machines'' None)
       = [EvNewRequest ''GET'' ''https://api.example.com/my/machines'' None, EvSign 0 ''Sun, 01 Nov 2026 12:00:00 UTC'', EvDo req] \<and>
     Request_URL req = ''https://api.example.com/my/machines'' \<and> Method req = ''GET'') \<and>
   Path (APIURL example_Client) = ''/v1''"
proof -
  note T = Execute_target_URL[of "example_env []" example_Client
      "Some 0" "''GET''" "''/my/machines''" None "Some [''limit'' \<mapsto> [''1'']]",
      unfolded option.case]
  have a: "Authorizers example_Client = Some (example_Signer ''aa:bb'' ''acct'') # []"
    by (simp add: example_Client_def)
  have sk: "example_Signer ''aa:bb'' ''acct'' (time_Now_UTC_RFC1123 (example_env []))
      = Inr ''Signature keyId=/acct/keys/aa:bb date: Sun, 01 Nov 2026 12:00:00 UTC''"
    by (simp add: example_Signer_def example_env_def)
  have hc: "HTTPClient example_Client
      = Some \<lparr> Transport = httpTransport False, CheckRedirect = doNotFollowRedirects \<rparr>"
    by (simp add: example_Client_def)
  have p: "Path (APIURL example_Client) = ''/v1''"
    by (simp add: example_Client_def)
  have f0: "(\<exists>calls. fst (ExecuteRequestURIParams (example_env []) example_Client (Some 0) ''GET'' ''/my/machines'' None (Some [''limit'' \<mapsto> [''1'']]))
       = EvNewRequest ''GET'' ''https://api.example.com/my/machines?limit=1'' None # calls)"
    using T[THEN conjunct1, THEN conjunct2, THEN conjunct1, rule_format, OF refl]
    by (simp add: example_url)
  have s0: "(\<exists>req. fst (ExecuteRequestURIParams (example_env []) example_Client (Some 0) ''GET'' ''/my/machines'' None (Some [''limit'' \<mapsto> [''1'']]))
       = [EvNewRequest ''GET'' ''https://api.example.com/my/machines?limit=1'' None, EvSign 0 ''Sun, 01 Nov 2026 12:00:00 UTC'', EvDo req] \<and>
     Request_URL req = ''https://api.example.com/my/machines?limit=1'' \<and> Method req = ''GET'')"
    using T[THEN conjunct1, THEN conjunct2, THEN conjunct2, rule_format, OF refl _ a sk refl hc,
        of "\<lparr> Method = ''GET'', Request_URL = ''https://api.example.com/my/machines?limit=1'', Request_Header = Map.empty, Request_Body = None, Request_ctx = None \<rparr>"]
    by (simp add: example_url example_now example_request)
  have f1: "(\<exists>calls. fst (ExecuteRequest (example_env []) example_Client (Some 0) ''GET'' ''/my/machines'' None)
       = EvNewRequest ''GET'' ''https://api.example.com/my/machines'' None # calls)"
    using T[THEN conjunct2, THEN conjunct1, THEN conjunct2, THEN conjunct1, rule_format, OF refl]
    by (simp add: example_url)
  have s1: "(\<exists>req. fst (ExecuteRequest (example_env []) example_Client (Some 0) ''GET'' ''/my/machines'' None)
       = [EvNewRequest ''GET'' ''https://api.example.com/my/machines'' None, EvSign 0 ''Sun, 01 Nov 2026 12:00:00 UTC'', EvDo req] \<and>
     Request_URL req = ''https://api.example.com/my/machines'' \<and> Method req = ''GET'')"
    using T[THEN conjunct2, THEN conjunct1, THEN conjunct2, THEN conjunct2, rule_format, OF refl _ a sk refl hc,
        of "\<lparr> Method = ''GET'', Request_URL = ''https://api.example.com/my/machines'', Request_Header = Map.empty, Request_Body = None, Request_ctx = None \<rparr>"]
    by (simp add: example_url example_now example_request)
  have f2: "(\<exists>calls. fst (ExecuteRequestRaw (example_env []) example_Client (Some 0) ''GET'' ''/my/machines'' None)
       = EvNewRequest ''GET'' ''https://api.example.com/my/machines'' None # calls)"
    using T[THEN conjunct2, THEN conjunct2, THEN conjunct2, THEN conjunct1, rule_format, OF refl]
    by (simp add: example_url)
  have s2: "(\<exists>req. fst (ExecuteRequestRaw (example_env []) example_Client (Some 0) ''GET'' ''/my/machines'' None)
       = [EvNewRequest ''GET'' ''https://api.example.com/my/machines'' None, EvSign 0 ''Sun, 01 Nov 2026 12:00:00 UTC'', EvDo req] \<and>
     Request_URL req = ''https://api.example.com/my/machines'' \<and> Method req = ''GET'')"
    using T[THEN conjunct2, THEN conjunct2, THEN conjunct2, THEN conjunct2, rule_format, OF refl _ a sk refl hc,
        of "\<lparr> Method = ''GET'', Request_URL = ''https://api.example.com/my/machines'', Request_Header = Map.empty, Request_Body = None, Request_ctx = None \<rparr>"]
    by (simp add: example_url example_now example_request)
  from f0 s0 f1 s1 f2 s2 p show ?thesis by (intro conjI)
qed

text \<open>
  C5 as stated fails for an endpoint with a path of its own: for the Client
  that \<^verbatim>\<open>New\<close> builds for \<^verbatim>\<open>https://api.example.com/v1\<close> the endpoint with the path
  appended is what \<^verbatim>\<open>FormatURL\<close> gives, and \<^verbatim>\<open>ExecuteRequest\<close> and
  \<^verbatim>\<open>ExecuteRequestRaw\<close> both request another URL.
\<close>

theorem Execute_target_URL_counterexample:
  "New (example_env []) ''https://api.example.com/v1'' ''acct''
     [Some (example_Signer ''aa:bb'' ''acct'')] = Inr example_Client \<and>
   FormatURL example_Client ''/my/machines'' = ''https://api.example.com/v1/my/machines'' \<and>
   hd (fst (ExecuteRequest (example_env []) example_Client (Some 0) ''GET'' ''/my/machines'' None))
     = EvNewRequest ''GET'' ''https://api.example.com/my/machines'' None \<and>
   EvNewRequest ''GET'' (FormatURL example_Client ''/my/machines'') None
     \<notin> set (fst (ExecuteRequest (example_env []) example_Client (Some 0) ''GET'' ''/my/machines'' None)) \<and>
   hd (fst (ExecuteRequestRaw (example_env []) example_Client (Some 0) ''GET'' ''/my/machines'' None))
     = EvNewRequest ''GET'' ''https://api.example.com/my/machines'' None \<and>
   EvNewRequest ''GET'' (FormatURL example_Client ''/my/machines'') None
     \<notin> set (fst (ExecuteRequestRaw (example_env []) example_Client (Some 0) ''GET'' ''/my/machines'' None))"
proof -
  from example_GET obtain req
    where R: "ExecuteRequest (example_env []) example_Client (Some 0) ''GET'' ''/my/machines'' None =
     ([EvNewRequest ''GET'' ''https://api.example.com/my/machines'' None,
       EvSign 0 ''Sun, 01 Nov 2026 12:00:00 UTC'', EvDo req],
      Returns body_200)"
    by auto
  from example_Raw_GET obtain req' resp
    where R': "ExecuteRequestRaw (example_env []) example_Client (Some 0) ''GET'' ''/my/machines'' None =
     ([EvNewRequest ''GET'' ''https://api.example.com/my/machines'' None,
       EvSign 0 ''Sun, 01 Nov 2026 12:00:00 UTC'', EvDo req'],
      Returns resp)"
    by auto
  have F: "FormatURL example_Client ''/my/machines'' = ''https://api.example.com/v1/my/machines''"
    by (simp add: FormatURL_def example_Client_def)
  show ?thesis unfolding R R' F by (simp add: example_New)
qed

text \<open>
  C7, as amended. For every call to \<^verbatim>\<open>New\<close> whose endpoint parses and whose account
  name is not empty, and in which no signer is left once the nil ones are
  dropped: if \<^verbatim>\<open>SDC_KEY_ID\<close> is empty the call fails with \<^verbatim>\<open>MissingKeyIdError\<close>; if it
  is set and \<^verbatim>\<open>NewSSHAgentSigner\<close> fails, the call fails with that error wrapped as
  the signer initialisation error, which is not \<^verbatim>\<open>MissingKeyIdError\<close>.
\<close>

theorem New_without_signers:
  assumes "url_Parse env endpoint = Inr apiURL"
    and "accountName \<noteq> []"
    and "filter (\<lambda>key. key \<noteq> None) signers = []"
  shows "(os_Getenv env ''SDC_KEY_ID'' = [] \<longrightarrow>
            New env endpoint accountName signers = Inl MissingKeyIdError) \<and>
         (\<forall>err. os_Getenv env ''SDC_KEY_ID'' \<noteq> [] \<longrightarrow>
            NewSSHAgentSigner env (os_Getenv env ''SDC_KEY_ID'') accountName = Inl err \<longrightarrow>
            New env endpoint accountName signers
              = Inl (Wrapf ''Problem initializing NewSSHAgentSigner: {{err}}'' err) \<and>
            Wrapf ''Problem initializing NewSSHAgentSigner: {{err}}'' err \<noteq> MissingKeyIdError)"
  using assms
  by (simp add: New_def Let_def authorizers_loop_filter MissingKeyIdError_def)

theorem New_without_signers_witness:
  "New (example_env []) ''https://api.example.com'' ''acct'' [None] = Inl MissingKeyIdError \<and>
   New (example_env ''missing'') ''https://api.example.com'' ''acct'' []
     = Inl (Wrapf ''Problem initializing NewSSHAgentSigner: {{err}}''
              (External ''No key in the agent matches''))"
proof -
  let ?u = "\<lparr> Scheme = ''https'', Opaque = [], User = None, Host = ''api.example.com'',
              Path = [], RawPath = [], ForceQuery = False, RawQuery = [], Fragment = [] \<rparr>"
  have p: "url_Parse (example_env k) ''https://api.example.com'' = Inr ?u" for k
    by (simp add: example_env_def example_Parse_def isLower_def isUpper_def isDigit_def
        Let_def toLower_def)
  have a: "''acct'' \<noteq> []" by simp
  have f1: "filter (\<lambda>key. key \<noteq> None) [None :: Signer option] = []" by simp
  have f2: "filter (\<lambda>key. key \<noteq> None) ([] :: Signer option list) = []" by simp
  have g1: "os_Getenv (example_env []) ''SDC_KEY_ID'' = []"
    by (simp add: example_env_def)
  have g2: "os_Getenv (example_env ''missing'') ''SDC_KEY_ID'' = ''missing''"
    by (simp add: example_env_def)
  have n: "NewSSHAgentSigner (example_env ''missing'') ''missing'' ''acct''
      = Inl (External ''No key in the agent matches'')"
    by (simp add: example_env_def example_NewSSHAgentSigner_def)
  from New_without_signers[OF p a f1, THEN conjunct1, rule_format, OF g1]
  have 1: "New (example_env []) ''https://api.example.com'' ''acct'' [None] = Inl MissingKeyIdError" .
  from New_without_signers[OF p a f2, THEN conjunct2, rule_format, of "''missing''"
      "External ''No key in the agent matches''"] g2 n
  have 2: "New (example_env ''missing'') ''https://api.example.com'' ''acct'' []
     = Inl (Wrapf ''Problem initializing NewSSHAgentSigner: {{err}}''
              (External ''No key in the agent matches''))"
    by simp
  from 1 2 show ?thesis by simp
qed

text \<open>
  C7 as stated fails when an earlier check of \<^verbatim>\<open>New\<close> fails first: with no signer
  and no \<^verbatim>\<open>SDC_KEY_ID\<close>, an empty account name gives another error.
\<close>

theorem New_without_signers_counterexample:
  "filter (\<lambda>key. key \<noteq> None) ([] :: Signer option list) = [] \<and>
   os_Getenv (example_env []) ''SDC_KEY_ID'' = [] \<and>
   New (example_env []) ''https://api.example.com'' [] []
     = Inl (ErrorsNew ''account name can not be empty'') \<and>
   New (example_env []) ''https://api.example.com'' [] [] \<noteq> Inl MissingKeyIdError"
  by (simp add: New_def example_env_def example_Parse_def isLower_def isUpper_def isDigit_def
      Let_def toLower_def MissingKeyIdError_def)

text \<open>What \<^verbatim>\<open>New\<close> stores as \<^verbatim>\<open>Authorizers\<close> when it succeeds.\<close>

lemma New_Authorizers:
  assumes "New env endpoint accountName signers = Inr c"
  shows "(filter (\<lambda>key. key \<noteq> None) signers \<noteq> [] \<and> Authorizers c = signers) \<or>
         (filter (\<lambda>key. key \<noteq> None) signers = [] \<and>
          (\<exists>keySigner. NewSSHAgentSigner env (os_Getenv env ''SDC_KEY_ID'') accountName = Inr keySigner
             \<and> Authorizers c = [Some keySigner]))"
  using assms
  by (auto simp: New_def Let_def authorizers_loop_filter split: sum.splits if_splits)

lemma New_Authorizers_nonempty:
  assumes "New env endpoint accountName signers = Inr c"
  shows "Authorizers c \<noteq> []"
  using New_Authorizers[OF assms] by auto

text \<open>
  C1. The claim holds of the code only in part: a Client that \<^verbatim>\<open>New\<close> returns has
  a signer, but \<^verbatim>\<open>New\<close> stores the list it was given and uses the filtered list
  only to decide whether to fall back. Given a nil signer before a real one, it
  returns a Client whose first signer is nil, and executing a request with that
  Client panics.
\<close>

theorem New_keeps_nil_signers:
  "\<exists>c. New (example_env []) ''https://api.example.com/v1'' ''acct''
          [None, Some (example_Signer ''aa:bb'' ''acct'')] = Inr c \<and>
        map Option.is_none (Authorizers c) = [True, False] \<and>
        ExecuteRequest (example_env []) c (Some 0) ''GET'' ''/my/machines'' None
          = ([EvNewRequest ''GET'' ''https://api.example.com/my/machines'' None],
             Panics ''nil pointer dereference'')"
  by (simp add: New_def ExecuteRequest_def ExecuteRequestURIParams_def Let_def example_defs)

text \<open>
  C6. The three executions do set \<^verbatim>\<open>Accept\<close>, \<^verbatim>\<open>Accept-Version\<close> and, with a body,
  \<^verbatim>\<open>Content-Type\<close> alike (lemmas \<open>URIParams_headers\<close>, \<open>Raw_headers\<close>), but not the same
  \<^verbatim>\<open>User-Agent\<close>: on the same Client and request, \<^verbatim>\<open>ExecuteRequest\<close> sends
  \<^verbatim>\<open>triton-go Client API\<close> and \<^verbatim>\<open>ExecuteRequestRaw\<close> sends \<^verbatim>\<open>triton-go c API\<close>.
\<close>

theorem User_Agent_differs:
  "(\<exists>req out. ExecuteRequest (example_env []) example_Client (Some 0) ''GET'' ''/my/machines'' None
        = ([EvNewRequest ''GET'' ''https://api.example.com/my/machines'' None,
            EvSign 0 ''Sun, 01 Nov 2026 12:00:00 UTC'', EvDo req], out) \<and>
      Header_Values (Request_Header req) ''User-Agent'' = [''triton-go Client API'']) \<and>
   (\<exists>req out. ExecuteRequestRaw (example_env []) example_Client (Some 0) ''GET'' ''/my/machines'' None
        = ([EvNewRequest ''GET'' ''https://api.example.com/my/machines'' None,
            EvSign 0 ''Sun, 01 Nov 2026 12:00:00 UTC'', EvDo req], out) \<and>
      Header_Values (Request_Header req) ''User-Agent'' = [''triton-go c API''])"
  by (simp add: ExecuteRequest_def ExecuteRequestURIParams_def ExecuteRequestRaw_def Let_def
      example_defs Header_Set_def Header_Values_def canonical_keys)

text \<open>Facts about \<^verbatim>\<open>DecodeError\<close>: a body that does not scan, and a document without a status key.\<close>

lemma DecodeError_scan_error:
  assumes "json_scan env body = Inl e"
  shows "DecodeError env c statusCode body = Wrapf ''Error decoding error response: {{err}}'' e"
  using assms by (simp add: DecodeError_def json_Decode_def)

lemma store_field_StatusCode:
  assumes "store_field f v e = Inr e'" and "f \<noteq> Field_StatusCode"
  shows "StatusCode e' = StatusCode e"
  using assms
  by (cases f; cases v) (auto simp: store_field_def split: option.splits)

lemma decode_object_StatusCode:
  assumes "decode_object members e saved = (e', saved')"
    and "\<forall>(key, v) \<in> set members. find_field key \<noteq> Some Field_StatusCode"
  shows "StatusCode e' = StatusCode e"
  using assms
proof (induction members arbitrary: e saved)
  case Nil
  then show ?case by simp
next
  case (Cons m members)
  obtain key v where m: "m = (key, v)" by (cases m)
  show ?case
  proof (cases "find_field key")
    case None
    with Cons m show ?thesis by simp
  next
    case (Some f)
    with Cons.prems m have ne: "f \<noteq> Field_StatusCode" by auto
    show ?thesis
    proof (cases "store_field f v e")
      case (Inl err)
      with Cons m Some show ?thesis by simp
    next
      case (Inr e1)
      from store_field_StatusCode[OF Inr ne] have "StatusCode e1 = StatusCode e" .
      moreover from Cons.prems m Some Inr have "decode_object members e1 saved = (e', saved')"
        by simp
      with Cons.IH[of e1 saved] Cons.prems have "StatusCode e' = StatusCode e1" by simp
      ultimately show ?thesis by simp
    qed
  qed
qed

lemma DecodeError_keeps_status:
  assumes "json_scan env body = Inr (JObject members)"
    and "\<forall>(key, v) \<in> set members. find_field key \<noteq> Some Field_StatusCode"
    and "DecodeError env c statusCode body = ClientErr e"
  shows "StatusCode e = statusCode"
proof -
  obtain e' saved where d: "decode_object members
      \<lparr>StatusCode = statusCode, Code = [], Message = []\<rparr> None = (e', saved)"
    by (cases "decode_object members \<lparr>StatusCode = statusCode, Code = [], Message = []\<rparr> None")
  from decode_object_StatusCode[OF d assms(2)] have s: "StatusCode e' = statusCode" by simp
  from assms(1,3) d have "e = e'"
    by (cases saved) (simp_all add: DecodeError_def json_Decode_def json_Unmarshal_def)
  with s show ?thesis by simp
qed

text \<open>
  C8. A body that cannot be scanned does give the wrapped decoding error
  (lemma \<open>DecodeError_scan_error\<close>), and a document with no status key keeps the
  status code given (lemma \<open>DecodeError_keeps_status\<close>). But the struct that is
  decoded into has \<^verbatim>\<open>StatusCode\<close> as an exported field without a tag, so a body
  that has a key \<^verbatim>\<open>statusCode\<close> overwrites the status code given: called with
  409, \<^verbatim>\<open>DecodeError\<close> returns a \<^verbatim>\<open>ClientError\<close> with 500.
\<close>

theorem DecodeError_status_from_body:
  "DecodeError (example_env []) example_Client 409 body_with_statusCode
     = ClientErr \<lparr>StatusCode = 500, Code = ''Conflict'', Message = ''exists''\<rparr>"
  by (rule example_decode_statusCode)

end
